theory Spec2Isabelle
  imports Main
begin

section \<open>Values, exceptions and tool outputs\<close>

text \<open>
  The function-calling agent worker (\<^verbatim>\<open>llama_index/core/agent/function_calling/step.py\<close>)
  and the tool invoker (\<^verbatim>\<open>llama_index/core/tools/calling.py\<close>) are embedded as pure
  functions. Python values that travel through tool arguments are the JSON scalars; a
  \<^verbatim>\<open>dict\<close> is the list of its items in insertion order (keys pairwise distinct), so
  that \<^verbatim>\<open>len(d)\<close> is the length of the list and \<^verbatim>\<open>d[next(iter(d))]\<close> is the value of its
  first item.
\<close>

datatype pyval = PyNone | PyBool bool | PyInt int | PyStr string

type_synonym pydict = "(string \<times> pyval) list"

text \<open>
  An exception object raised by code outside the two modules (a tool, the backend, a
  retriever). The modules observe such an object in two ways only: whether the clause
  \<^verbatim>\<open>except Exception\<close> matches it (it is an instance of \<^verbatim>\<open>Exception\<close>; a
  \<^verbatim>\<open>KeyboardInterrupt\<close>, \<^verbatim>\<open>SystemExit\<close> or \<^verbatim>\<open>asyncio.CancelledError\<close> is not), and
  its \<^verbatim>\<open>str(e)\<close>.
\<close>

datatype raised = Raised (is_Exception: bool) (str_exc: string)

text \<open>What a function of the two modules can raise to its caller.\<close>

datatype py_error =
    ValueError string
  | KeyError string
  | NotImplementedError string
  | Propagated raised

record tool_output =
  content :: string
  tool_name :: string
  raw_input :: pydict
  raw_output :: pyval

text \<open>
  Modelled from the spec: \<^verbatim>\<open>ToolOutput.__str__\<close> is declared outside src/; the spec
  gives a ToolOutput a display content (a string) and makes the tool message's content
  the stringified output.
\<close>

definition str_tool_output :: "tool_output \<Rightarrow> string" where
  "str_tool_output out = content out"

section \<open>Tools\<close>

text \<open>
  A tool exposes its name and the \<^verbatim>\<open>"properties"\<close> of its declared parameter schema
  (\<^verbatim>\<open>tool.metadata.get_parameters_dict()["properties"]\<close>, here the list of the
  parameter names). It is invoked either with one positional argument or with keyword
  arguments, and the invocation returns a ToolOutput or raises.
\<close>

record tool_metadata =
  name :: string
  properties :: "string list"

datatype call_args = Positional pyval | Keywords pydict

type_synonym invocation = "call_args \<Rightarrow> raised + tool_output"

datatype tool =
    BaseTool tool_metadata invocation
  | AsyncBaseTool tool_metadata invocation invocation

fun metadata :: "tool \<Rightarrow> tool_metadata" where
  "metadata (BaseTool m c) = m"
| "metadata (AsyncBaseTool m c a) = m"

text \<open>\<^verbatim>\<open>tool(...)\<close>: the synchronous entry point.\<close>

fun call :: "tool \<Rightarrow> invocation" where
  "call (BaseTool m c) = c"
| "call (AsyncBaseTool m c a) = c"

text \<open>
  \<^verbatim>\<open>await tool.acall(...)\<close>; a plain \<^verbatim>\<open>BaseTool\<close> has no such attribute, and the
  attribute access raises \<^verbatim>\<open>AttributeError\<close>.
\<close>

fun acall :: "tool \<Rightarrow> invocation" where
  "acall (AsyncBaseTool m c a) = a"
| "acall (BaseTool m c) = (\<lambda>_. Inl (Raised True ''BaseTool object has no attribute acall''))"

text \<open>
  Modelled from the spec: \<^verbatim>\<open>adapt_to_async_tool\<close> is declared outside src/; the spec
  asks that every tool expose a uniform asynchronous-capable invocation contract
  regardless of its native nature, the asynchronous entry of a synchronous tool being
  its async-adapted synchronous invocation.
\<close>

fun adapt_to_async_tool :: "tool \<Rightarrow> tool" where
  "adapt_to_async_tool (BaseTool m c) = AsyncBaseTool m c c"
| "adapt_to_async_tool (AsyncBaseTool m c a) = AsyncBaseTool m c a"

section \<open>The tool invoker (calling.py)\<close>

text \<open>
  The \<^verbatim>\<open>try ... except Exception as e\<close> block shared by \<^verbatim>\<open>call_tool\<close> and
  \<^verbatim>\<open>acall_tool\<close>, applied to the outcome of the invocation attempted in its body: a
  returned output is returned, an instance of \<^verbatim>\<open>Exception\<close> becomes the error
  ToolOutput, anything else raised passes through the clause.
\<close>

definition except_Exception :: "tool \<Rightarrow> pydict \<Rightarrow> raised + tool_output \<Rightarrow> py_error + tool_output" where
  "except_Exception tool arguments outcome =
     (case outcome of
        Inr out \<Rightarrow> Inr out
      | Inl e \<Rightarrow>
          if is_Exception e
          then Inr \<lparr>content = ''Encountered error: '' @ str_exc e,
                    tool_name = name (metadata tool),
                    raw_input = arguments,
                    raw_output = PyStr (str_exc e)\<rparr>
          else Inl (Propagated e))"

definition call_tool :: "tool \<Rightarrow> pydict \<Rightarrow> py_error + tool_output" where
  "call_tool tool arguments =
     except_Exception tool arguments
       (if length (properties (metadata tool)) = 1 \<and> length arguments = 1
        then call tool (Positional (snd (hd arguments)))
        else call tool (Keywords arguments))"

definition acall_tool :: "tool \<Rightarrow> pydict \<Rightarrow> py_error + tool_output" where
  "acall_tool tool arguments =
     (let async_tool = adapt_to_async_tool tool in
      except_Exception tool arguments
        (if length (properties (metadata tool)) = 1 \<and> length arguments = 1
         then acall async_tool (Positional (snd (hd arguments)))
         else acall async_tool (Keywords arguments)))"

text \<open>
  The dict comprehension \<^verbatim>\<open>{tool.metadata.name: tool for tool in tools}\<close>: the tools
  are inserted in list order, a later tool replacing an earlier one of the same name.
\<close>

definition tools_by_name :: "tool list \<Rightarrow> string \<rightharpoonup> tool" where
  "tools_by_name tools = map_of (rev (map (\<lambda>tool. (name (metadata tool), tool)) tools))"

text \<open>
  A ToolSelection, produced by the backend. Its \<^verbatim>\<open>tool_name\<close> field is
  \<open>selection_tool_name\<close> here (the ToolOutput has a field of the same name). The
  arguments come from JSON, so \<^verbatim>\<open>json.dumps(tool_call.tool_kwargs)\<close> returns; what the
  verbose mode prints is not part of the model.
\<close>

record tool_selection =
  tool_id :: string
  selection_tool_name :: string
  tool_kwargs :: pydict

definition call_tool_with_selection :: "tool_selection \<Rightarrow> tool list \<Rightarrow> bool \<Rightarrow> py_error + tool_output" where
  "call_tool_with_selection tool_call tools verbose =
     (case tools_by_name tools (selection_tool_name tool_call) of
        None \<Rightarrow> Inl (KeyError (selection_tool_name tool_call))
      | Some tool \<Rightarrow> call_tool tool (tool_kwargs tool_call))"

definition acall_tool_with_selection :: "tool_selection \<Rightarrow> tool list \<Rightarrow> bool \<Rightarrow> py_error + tool_output" where
  "acall_tool_with_selection tool_call tools verbose =
     (case tools_by_name tools (selection_tool_name tool_call) of
        None \<Rightarrow> Inl (KeyError (selection_tool_name tool_call))
      | Some tool \<Rightarrow> acall_tool tool (tool_kwargs tool_call))"

section \<open>Messages, memory and tasks\<close>

datatype message_role = USER | ASSISTANT | TOOL | SYSTEM

text \<open>A ChatMessage; its \<^verbatim>\<open>content\<close> field is \<open>message_content\<close> here.\<close>

record chat_message =
  role :: message_role
  message_content :: string
  additional_kwargs :: "(string \<times> string) list"

text \<open>
  Modelled from the spec: the memory classes (\<^verbatim>\<open>BaseMemory\<close>, \<^verbatim>\<open>ChatMemoryBuffer\<close>)
  are declared outside src/; the spec takes a memory to be the ordered sequence of its
  messages, read as a whole, appended to by \<^verbatim>\<open>put\<close>, replaced by \<^verbatim>\<open>set\<close> and
  emptied by \<^verbatim>\<open>reset\<close>.
\<close>

type_synonym chat_memory = "chat_message list"

definition memory_get :: "chat_memory \<Rightarrow> chat_message list" where
  "memory_get m = m"

definition memory_get_all :: "chat_memory \<Rightarrow> chat_message list" where
  "memory_get_all m = m"

definition memory_put :: "chat_memory \<Rightarrow> chat_message \<Rightarrow> chat_memory" where
  "memory_put m msg = m @ [msg]"

definition memory_set :: "chat_memory \<Rightarrow> chat_message list \<Rightarrow> chat_memory" where
  "memory_set m msgs = msgs"

definition memory_reset :: "chat_memory \<Rightarrow> chat_memory" where
  "memory_reset m = []"

text \<open>
  The three entries that \<^verbatim>\<open>initialize_step\<close> stores in \<^verbatim>\<open>task.extra_state\<close>. The
  dictionary of a task is \<open>None\<close> while it lacks them (a lookup then raises
  \<^verbatim>\<open>KeyError\<close>); other entries are never read by the worker.
\<close>

record task_state =
  sources :: "tool_output list"
  n_function_calls :: int
  new_memory :: chat_memory

record task =
  task_id :: string
  input :: string
  memory :: chat_memory
  extra_state :: "task_state option"

text \<open>A TaskStep; its \<^verbatim>\<open>task_id\<close> and \<^verbatim>\<open>input\<close> fields are prefixed here.\<close>

record task_step =
  step_task_id :: string
  step_id :: string
  step_input :: "string option"

text \<open>
  Modelled from the spec: \<^verbatim>\<open>TaskStep.get_next_step\<close> is declared outside src/; a
  continuation step has its own identity, the owning task of the step it continues and
  the input it is given.
\<close>

definition get_next_step :: "task_step \<Rightarrow> string \<Rightarrow> string option \<Rightarrow> task_step" where
  "get_next_step step new_id inp =
     \<lparr>step_task_id = step_task_id step, step_id = new_id, step_input = inp\<rparr>"

text \<open>
  Modelled from the spec: \<^verbatim>\<open>add_user_step_to_memory\<close> is declared outside src/; the raw
  input a step carries is appended to the memory as a user message.
\<close>

definition add_user_step_to_memory :: "task_step \<Rightarrow> chat_memory \<Rightarrow> chat_memory" where
  "add_user_step_to_memory step m =
     (case step_input step of
        None \<Rightarrow> m
      | Some text \<Rightarrow> memory_put m \<lparr>role = USER, message_content = text, additional_kwargs = []\<rparr>)"

text \<open>
  An AgentChatResponse (its \<^verbatim>\<open>sources\<close> field is \<open>response_sources\<close>) and a
  TaskStepOutput (its \<^verbatim>\<open>output\<close> field is \<open>step_output\<close>).
\<close>

record agent_chat_response =
  response :: string
  response_sources :: "tool_output list"

record task_step_output =
  step_output :: agent_chat_response
  task_step :: task_step
  is_last :: bool
  next_steps :: "task_step list"

section \<open>The backend and the worker\<close>

text \<open>
  A ChatResponse is declared outside src/; the worker observes it through
  \<^verbatim>\<open>response.message\<close> and \<^verbatim>\<open>str(response)\<close> only.
\<close>

record chat_response =
  message :: chat_message
  response_str :: string

text \<open>
  The backend: its blocking and its suspending chat call, given the tools and the chat
  history, and \<^verbatim>\<open>_get_tool_call_from_response(response, error_on_no_tool_call=False)\<close>.
  Each returns or raises.
\<close>

record llm =
  chat_with_tool :: "tool list \<Rightarrow> chat_message list \<Rightarrow> raised + chat_response"
  achat_with_tool :: "tool list \<Rightarrow> chat_message list \<Rightarrow> raised + chat_response"
  get_tool_call_from_response :: "chat_response \<Rightarrow> raised + tool_selection option"

text \<open>
  The worker after \<^verbatim>\<open>__init__\<close>. \<open>get_tools_fn\<close> is the function stored in
  \<^verbatim>\<open>self._get_tools\<close> (the fixed list, the retriever's \<^verbatim>\<open>retrieve\<close>, or the empty
  list). What the callback manager records is not part of the model: its event context
  re-raises whatever its body raises.
\<close>

record worker =
  worker_llm :: llm
  verbose :: bool
  max_function_calls :: int
  prefix_messages :: "chat_message list"
  get_tools_fn :: "string \<Rightarrow> raised + tool list"

definition get_function_by_name :: "tool list \<Rightarrow> string \<Rightarrow> py_error + tool" where
  "get_function_by_name tools nm =
     (let name_to_tool = tools_by_name tools in
      case name_to_tool nm of
        None \<Rightarrow> Inl (ValueError (''Tool with name '' @ nm @ '' not found''))
      | Some tool \<Rightarrow> Inr tool)"

text \<open>
  \<^verbatim>\<open>str(uuid.uuid4())\<close> is an argument of the functions that draw an identifier.
\<close>

definition initialize_step :: "string \<Rightarrow> task \<Rightarrow> task_step \<times> task" where
  "initialize_step new_id task =
     (let task_state = \<lparr>sources = [], n_function_calls = 0, new_memory = []\<rparr> in
      (\<lparr>step_task_id = task_id task, step_id = new_id, step_input = Some (input task)\<rparr>,
       task\<lparr>extra_state := Some task_state\<rparr>))"

definition get_tools :: "worker \<Rightarrow> string \<Rightarrow> py_error + tool list" where
  "get_tools w inp =
     (case get_tools_fn w inp of
        Inl e \<Rightarrow> Inl (Propagated e)
      | Inr ts \<Rightarrow> Inr (map adapt_to_async_tool ts))"

definition get_all_messages :: "worker \<Rightarrow> task \<Rightarrow> py_error + chat_message list" where
  "get_all_messages w task =
     (case extra_state task of
        None \<Rightarrow> Inl (KeyError ''new_memory'')
      | Some st \<Rightarrow>
          Inr (prefix_messages w @ memory_get (memory task) @ memory_get_all (new_memory st)))"

section \<open>The step engine (step.py)\<close>

text \<open>
  \<^verbatim>\<open>_call_function\<close> and \<^verbatim>\<open>_acall_function\<close>. The payload of the callback event is
  built first and looks the tool up with \<open>get_function_by_name\<close>; the tool is then
  invoked, and only after that are the output list and the memory appended to. The two
  mutable arguments are passed in and handed back.
\<close>

definition call_function ::
  "worker \<Rightarrow> tool list \<Rightarrow> tool_selection \<Rightarrow> chat_memory \<Rightarrow> tool_output list \<Rightarrow> bool
     \<Rightarrow> py_error + (chat_memory \<times> tool_output list)" where
  "call_function w tools tool_call mem srcs verb =
     (case get_function_by_name tools (selection_tool_name tool_call) of
        Inl e \<Rightarrow> Inl e
      | Inr _ \<Rightarrow>
          (case call_tool_with_selection tool_call tools verb of
             Inl e \<Rightarrow> Inl e
           | Inr tool_output \<Rightarrow>
               (let function_message =
                      \<lparr>role = TOOL,
                       message_content = str_tool_output tool_output,
                       additional_kwargs =
                         [(''name'', selection_tool_name tool_call),
                          (''tool_call_id'', tool_id tool_call)]\<rparr>
                in Inr (memory_put mem function_message, srcs @ [tool_output]))))"

definition acall_function ::
  "worker \<Rightarrow> tool list \<Rightarrow> tool_selection \<Rightarrow> chat_memory \<Rightarrow> tool_output list \<Rightarrow> bool
     \<Rightarrow> py_error + (chat_memory \<times> tool_output list)" where
  "acall_function w tools tool_call mem srcs verb =
     (case get_function_by_name tools (selection_tool_name tool_call) of
        Inl e \<Rightarrow> Inl e
      | Inr _ \<Rightarrow>
          (case acall_tool_with_selection tool_call tools verb of
             Inl e \<Rightarrow> Inl e
           | Inr tool_output \<Rightarrow>
               (let function_message =
                      \<lparr>role = TOOL,
                       message_content = str_tool_output tool_output,
                       additional_kwargs =
                         [(''name'', selection_tool_name tool_call),
                          (''tool_call_id'', tool_id tool_call)]\<rparr>
                in Inr (memory_put mem function_message, srcs @ [tool_output]))))"

text \<open>
  \<^verbatim>\<open>run_step\<close> and \<^verbatim>\<open>arun_step\<close>. The task is mutated in place, so it is handed back
  also when the step raises; \<open>new_id\<close> is the identifier drawn for the continuation
  step.
\<close>

definition run_step ::
  "worker \<Rightarrow> string \<Rightarrow> task_step \<Rightarrow> task \<Rightarrow> (py_error + task_step_output) \<times> task" where
  "run_step w new_id step task =
     (case (case step_input step of
              None \<Rightarrow> Inr task
            | Some _ \<Rightarrow>
                (case extra_state task of
                   None \<Rightarrow> Inl (KeyError ''new_memory'')
                 | Some st \<Rightarrow>
                     Inr (task\<lparr>extra_state :=
                            Some (st\<lparr>new_memory := add_user_step_to_memory step (new_memory st)\<rparr>)\<rparr>))) of
        Inl e \<Rightarrow> (Inl e, task)
      | Inr task1 \<Rightarrow>
     (case get_tools w (input task1) of
        Inl e \<Rightarrow> (Inl e, task1)
      | Inr tools \<Rightarrow>
     (case get_all_messages w task1 of
        Inl e \<Rightarrow> (Inl e, task1)
      | Inr chat_history \<Rightarrow>
     (case chat_with_tool (worker_llm w) tools chat_history of
        Inl e \<Rightarrow> (Inl (Propagated e), task1)
      | Inr resp \<Rightarrow>
     (case get_tool_call_from_response (worker_llm w) resp of
        Inl e \<Rightarrow> (Inl (Propagated e), task1)
      | Inr tool_call \<Rightarrow>
     (case extra_state task1 of
        None \<Rightarrow> (Inl (KeyError ''new_memory''), task1)
      | Some st1 \<Rightarrow>
     (let st2 = st1\<lparr>new_memory := memory_put (new_memory st1) (message resp)\<rparr>;
          task2 = task1\<lparr>extra_state := Some st2\<rparr>
      in case tool_call of
        None \<Rightarrow>
          (Inr \<lparr>step_output = \<lparr>response = response_str resp, response_sources = sources st2\<rparr>,
                task_step = step, is_last = True, next_steps = []\<rparr>,
           task2)
      | Some tc \<Rightarrow>
          (case call_function w tools tc (new_memory st2) (sources st2) (verbose w) of
             Inl e \<Rightarrow> (Inl e, task2)
           | Inr (mem3, srcs3) \<Rightarrow>
               (let st3 = st2\<lparr>new_memory := mem3, sources := srcs3\<rparr>;
                    task3 = task2\<lparr>extra_state := Some st3\<rparr>
                in (Inr \<lparr>step_output =
                           \<lparr>response = response_str resp, response_sources = sources st3\<rparr>,
                         task_step = step, is_last = False,
                         next_steps = [get_next_step step new_id None]\<rparr>,
                    task3))))))))))"

definition arun_step ::
  "worker \<Rightarrow> string \<Rightarrow> task_step \<Rightarrow> task \<Rightarrow> (py_error + task_step_output) \<times> task" where
  "arun_step w new_id step task =
     (case (case step_input step of
              None \<Rightarrow> Inr task
            | Some _ \<Rightarrow>
                (case extra_state task of
                   None \<Rightarrow> Inl (KeyError ''new_memory'')
                 | Some st \<Rightarrow>
                     Inr (task\<lparr>extra_state :=
                            Some (st\<lparr>new_memory := add_user_step_to_memory step (new_memory st)\<rparr>)\<rparr>))) of
        Inl e \<Rightarrow> (Inl e, task)
      | Inr task1 \<Rightarrow>
     (case get_tools w (input task1) of
        Inl e \<Rightarrow> (Inl e, task1)
      | Inr tools \<Rightarrow>
     (case get_all_messages w task1 of
        Inl e \<Rightarrow> (Inl e, task1)
      | Inr chat_history \<Rightarrow>
     (case achat_with_tool (worker_llm w) tools chat_history of
        Inl e \<Rightarrow> (Inl (Propagated e), task1)
      | Inr resp \<Rightarrow>
     (case get_tool_call_from_response (worker_llm w) resp of
        Inl e \<Rightarrow> (Inl (Propagated e), task1)
      | Inr tool_call \<Rightarrow>
     (case extra_state task1 of
        None \<Rightarrow> (Inl (KeyError ''new_memory''), task1)
      | Some st1 \<Rightarrow>
     (let st2 = st1\<lparr>new_memory := memory_put (new_memory st1) (message resp)\<rparr>;
          task2 = task1\<lparr>extra_state := Some st2\<rparr>
      in case tool_call of
        None \<Rightarrow>
          (Inr \<lparr>step_output = \<lparr>response = response_str resp, response_sources = sources st2\<rparr>,
                task_step = step, is_last = True, next_steps = []\<rparr>,
           task2)
      | Some tc \<Rightarrow>
          (case acall_function w tools tc (new_memory st2) (sources st2) (verbose w) of
             Inl e \<Rightarrow> (Inl e, task2)
           | Inr (mem3, srcs3) \<Rightarrow>
               (let st3 = st2\<lparr>new_memory := mem3, sources := srcs3\<rparr>;
                    task3 = task2\<lparr>extra_state := Some st3\<rparr>
                in (Inr \<lparr>step_output =
                           \<lparr>response = response_str resp, response_sources = sources st3\<rparr>,
                         task_step = step, is_last = False,
                         next_steps = [get_next_step step new_id None]\<rparr>,
                    task3))))))))))"

definition stream_step :: "worker \<Rightarrow> task_step \<Rightarrow> task \<Rightarrow> (py_error + task_step_output) \<times> task" where
  "stream_step w step task =
     (Inl (NotImplementedError ''Stream not supported for function calling agent''), task)"

definition astream_step :: "worker \<Rightarrow> task_step \<Rightarrow> task \<Rightarrow> (py_error + task_step_output) \<times> task" where
  "astream_step w step task =
     (Inl (NotImplementedError ''Stream not supported for function calling agent''), task)"

definition finalize_task :: "task \<Rightarrow> (py_error + unit) \<times> task" where
  "finalize_task task =
     (case extra_state task of
        None \<Rightarrow> (Inl (KeyError ''new_memory''), task)
      | Some st \<Rightarrow>
          (Inr (),
           task\<lparr>memory := memory_set (memory task)
                             (memory_get_all (memory task) @ memory_get_all (new_memory st)),
                extra_state := Some (st\<lparr>new_memory := memory_reset (new_memory st)\<rparr>)\<rparr>))"

section \<open>A concrete scenario\<close>

text \<open>
  Tools and a backend on which the functions above are evaluated: a one-parameter tool
  that reports how it was invoked, a tool that fails with an \<^verbatim>\<open>Exception\<close>, a tool
  interrupted by a \<^verbatim>\<open>KeyboardInterrupt\<close> (whose \<^verbatim>\<open>str\<close> is empty), and the catalog
  \<^verbatim>\<open>[add(a, b)]\<close> with a backend that selects \<^verbatim>\<open>add\<close> with \<^verbatim>\<open>{a: 2, b: 3}\<close> until
  the history holds a tool message and then answers.
\<close>

definition echo_tool :: tool where
  "echo_tool =
     BaseTool \<lparr>name = ''echo'', properties = [''x'']\<rparr>
       (\<lambda>args. case args of
          Positional v \<Rightarrow>
            Inr \<lparr>content = ''positional'', tool_name = ''echo'', raw_input = [], raw_output = v\<rparr>
        | Keywords kw \<Rightarrow>
            Inr \<lparr>content = ''keywords'', tool_name = ''echo'', raw_input = kw, raw_output = PyNone\<rparr>)"

definition failing_tool :: tool where
  "failing_tool =
     BaseTool \<lparr>name = ''fail'', properties = [''x'']\<rparr> (\<lambda>args. Inl (Raised True ''division by zero''))"

definition interrupted_tool :: tool where
  "interrupted_tool =
     BaseTool \<lparr>name = ''wait'', properties = [''x'']\<rparr> (\<lambda>args. Inl (Raised False []))"

definition add_tool :: tool where
  "add_tool =
     BaseTool \<lparr>name = ''add'', properties = [''a'', ''b'']\<rparr>
       (\<lambda>args. case args of
          Positional v \<Rightarrow> Inl (Raised True ''add() missing 1 required positional argument'')
        | Keywords kw \<Rightarrow>
            (case (map_of kw ''a'', map_of kw ''b'') of
               (Some (PyInt x), Some (PyInt y)) \<Rightarrow>
                 Inr \<lparr>content = ''sum'', tool_name = ''add'', raw_input = kw,
                      raw_output = PyInt (x + y)\<rparr>
             | _ \<Rightarrow> Inl (Raised True ''add() got unexpected arguments'')))"

definition scenario_selection :: tool_selection where
  "scenario_selection =
     \<lparr>tool_id = ''call_1'', selection_tool_name = ''add'',
      tool_kwargs = [(''a'', PyInt 2), (''b'', PyInt 3)]\<rparr>"

definition scenario_chat :: "tool list \<Rightarrow> chat_message list \<Rightarrow> raised + chat_response" where
  "scenario_chat tools history =
     (if list_ex (\<lambda>m. role m = TOOL) history
      then Inr \<lparr>message = \<lparr>role = ASSISTANT, message_content = ''7'', additional_kwargs = []\<rparr>,
               response_str = ''assistant: 7''\<rparr>
      else Inr \<lparr>message = \<lparr>role = ASSISTANT, message_content = [], additional_kwargs = []\<rparr>,
               response_str = ''assistant: ''\<rparr>)"

definition scenario_llm :: llm where
  "scenario_llm =
     \<lparr>chat_with_tool = scenario_chat,
      achat_with_tool = scenario_chat,
      get_tool_call_from_response =
        (\<lambda>resp. Inr (if message_content (message resp) = []
                      then Some scenario_selection else None))\<rparr>"

definition scenario_worker :: worker where
  "scenario_worker =
     \<lparr>worker_llm = scenario_llm, verbose = False, max_function_calls = 5,
      prefix_messages =
        [\<lparr>role = SYSTEM, message_content = ''You add numbers.'', additional_kwargs = []\<rparr>],
      get_tools_fn = (\<lambda>inp. Inr [add_tool])\<rparr>"

definition scenario_task :: task where
  "scenario_task =
     \<lparr>task_id = ''t1'', input = ''What is 2 + 3?'', memory = [], extra_state = None\<rparr>"

text \<open>
  A tool that exits the interpreter (\<^verbatim>\<open>SystemExit('bye')\<close>, not an instance of
  \<^verbatim>\<open>Exception\<close>), and a backend that answers only when it is consulted with exactly
  the expected chat history and raises on any other.
\<close>

definition exiting_tool :: tool where
  "exiting_tool =
     BaseTool \<lparr>name = ''exit'', properties = [''code'']\<rparr> (\<lambda>args. Inl (Raised False ''bye''))"

definition probe_chat ::
  "chat_message list \<Rightarrow> tool list \<Rightarrow> chat_message list \<Rightarrow> raised + chat_response" where
  "probe_chat expected tools history =
     (if history = expected
      then Inr \<lparr>message = \<lparr>role = ASSISTANT, message_content = ''7'', additional_kwargs = []\<rparr>,
               response_str = ''assistant: 7''\<rparr>
      else Inl (Raised True ''unexpected context''))"

definition probe_context :: "chat_message list" where
  "probe_context =
     [\<lparr>role = SYSTEM, message_content = ''You add numbers.'', additional_kwargs = []\<rparr>,
      \<lparr>role = USER, message_content = ''Hello'', additional_kwargs = []\<rparr>,
      \<lparr>role = ASSISTANT, message_content = ''Hi'', additional_kwargs = []\<rparr>,
      \<lparr>role = USER, message_content = ''What is 2 + 3?'', additional_kwargs = []\<rparr>,
      \<lparr>role = ASSISTANT, message_content = [], additional_kwargs = []\<rparr>,
      \<lparr>role = TOOL, message_content = ''sum'',
       additional_kwargs = [(''name'', ''add''), (''tool_call_id'', ''call_1'')]\<rparr>]"

definition probe_worker :: worker where
  "probe_worker =
     scenario_worker\<lparr>worker_llm :=
       scenario_llm\<lparr>chat_with_tool := probe_chat probe_context,
                     achat_with_tool := probe_chat probe_context\<rparr>\<rparr>"

definition probe_state :: task_state where
  "probe_state =
     \<lparr>sources =
        [\<lparr>content = ''sum'', tool_name = ''add'',
          raw_input = [(''a'', PyInt 2), (''b'', PyInt 3)], raw_output = PyInt 5\<rparr>],
      n_function_calls = 0,
      new_memory =
        [\<lparr>role = USER, message_content = ''What is 2 + 3?'', additional_kwargs = []\<rparr>,
         \<lparr>role = ASSISTANT, message_content = [], additional_kwargs = []\<rparr>,
         \<lparr>role = TOOL, message_content = ''sum'',
          additional_kwargs = [(''name'', ''add''), (''tool_call_id'', ''call_1'')]\<rparr>]\<rparr>"

definition probe_task :: task where
  "probe_task =
     \<lparr>task_id = ''t1'', input = ''What is 2 + 3?'',
      memory =
        [\<lparr>role = USER, message_content = ''Hello'', additional_kwargs = []\<rparr>,
         \<lparr>role = ASSISTANT, message_content = ''Hi'', additional_kwargs = []\<rparr>],
      extra_state = Some probe_state\<rparr>"

section \<open>The tool invoker: error capture and parameter binding\<close>

lemma metadata_adapt_to_async_tool [simp]: "metadata (adapt_to_async_tool t) = metadata t"
  by (cases t) simp_all

lemma call_adapt_to_async_tool [simp]: "call (adapt_to_async_tool t) = call t"
  by (cases t) simp_all

lemma adapt_to_async_tool_idem [simp]:
  "adapt_to_async_tool (adapt_to_async_tool t) = adapt_to_async_tool t"
  by (cases t) simp_all

text \<open>
  C1, as stated, fails: the handler is \<^verbatim>\<open>except Exception\<close>, so an exception that is
  not an instance of \<^verbatim>\<open>Exception\<close> leaves \<^verbatim>\<open>call_tool\<close> and \<^verbatim>\<open>acall_tool\<close>. Here the
  invocation of a one-parameter tool is interrupted (\<^verbatim>\<open>KeyboardInterrupt\<close>): the
  invocation raises, and both invokers raise the same exception instead of returning
  a ToolOutput.
\<close>

theorem call_tool_interrupt_propagates:
  "call interrupted_tool (Positional (PyInt 5)) = Inl (Raised False []) \<and>
   call_tool interrupted_tool [(''x'', PyInt 5)] = Inl (Propagated (Raised False [])) \<and>
   acall_tool interrupted_tool [(''x'', PyInt 5)] = Inl (Propagated (Raised False []))"
  by (simp add: interrupted_tool_def call_tool_def acall_tool_def except_Exception_def)

text \<open>
  C1, amended: for every tool and every argument mapping, if the invocation performed
  by \<^verbatim>\<open>call_tool\<close> (or \<^verbatim>\<open>acall_tool\<close>) raises an exception that is an instance of
  \<^verbatim>\<open>Exception\<close>, the invoker returns a ToolOutput whose content is
  \<^verbatim>\<open>"Encountered error: "\<close> followed by \<^verbatim>\<open>str(e)\<close>, whose tool name is the tool's,
  whose raw input is the argument mapping and whose raw output is \<^verbatim>\<open>str(e)\<close>, and it
  does not raise; if the invocation raises an exception that is not an instance of
  \<^verbatim>\<open>Exception\<close>, the invoker does not catch it and raises that same exception.
\<close>

theorem call_tool_catches_exactly_Exception:
  "(call tool (if length (properties (metadata tool)) = 1 \<and> length arguments = 1
               then Positional (snd (hd arguments)) else Keywords arguments) = Inl e \<and>
    is_Exception e
    \<longrightarrow> call_tool tool arguments =
          Inr \<lparr>content = ''Encountered error: '' @ str_exc e,
               tool_name = name (metadata tool),
               raw_input = arguments,
               raw_output = PyStr (str_exc e)\<rparr>) \<and>
   (call tool (if length (properties (metadata tool)) = 1 \<and> length arguments = 1
               then Positional (snd (hd arguments)) else Keywords arguments) = Inl e \<and>
    \<not> is_Exception e
    \<longrightarrow> call_tool tool arguments = Inl (Propagated e)) \<and>
   (acall (adapt_to_async_tool tool)
          (if length (properties (metadata tool)) = 1 \<and> length arguments = 1
           then Positional (snd (hd arguments)) else Keywords arguments) = Inl e \<and>
    is_Exception e
    \<longrightarrow> acall_tool tool arguments =
          Inr \<lparr>content = ''Encountered error: '' @ str_exc e,
               tool_name = name (metadata tool),
               raw_input = arguments,
               raw_output = PyStr (str_exc e)\<rparr>) \<and>
   (acall (adapt_to_async_tool tool)
          (if length (properties (metadata tool)) = 1 \<and> length arguments = 1
           then Positional (snd (hd arguments)) else Keywords arguments) = Inl e \<and>
    \<not> is_Exception e
    \<longrightarrow> acall_tool tool arguments = Inl (Propagated e))"
proof -
  have sync: "call_tool tool arguments =
      (if is_Exception e
       then Inr \<lparr>content = ''Encountered error: '' @ str_exc e, tool_name = name (metadata tool),
                 raw_input = arguments, raw_output = PyStr (str_exc e)\<rparr>
       else Inl (Propagated e))"
    if "call tool (if length (properties (metadata tool)) = 1 \<and> length arguments = 1
                   then Positional (snd (hd arguments)) else Keywords arguments) = Inl e"
    using that by (auto simp: call_tool_def except_Exception_def split: if_splits)
  have async: "acall_tool tool arguments =
      (if is_Exception e
       then Inr \<lparr>content = ''Encountered error: '' @ str_exc e, tool_name = name (metadata tool),
                 raw_input = arguments, raw_output = PyStr (str_exc e)\<rparr>
       else Inl (Propagated e))"
    if "acall (adapt_to_async_tool tool)
          (if length (properties (metadata tool)) = 1 \<and> length arguments = 1
           then Positional (snd (hd arguments)) else Keywords arguments) = Inl e"
    using that by (auto simp: acall_tool_def except_Exception_def Let_def split: if_splits)
  show ?thesis
    using sync async by simp
qed

theorem call_tool_catches_exactly_Exception_witness:
  "call failing_tool (Positional (PyInt 5)) = Inl (Raised True ''division by zero'') \<and>
   acall (adapt_to_async_tool failing_tool) (Positional (PyInt 5)) =
     Inl (Raised True ''division by zero'') \<and>
   is_Exception (Raised True ''division by zero'') \<and>
   call_tool failing_tool [(''x'', PyInt 5)] =
     Inr \<lparr>content = ''Encountered error: division by zero'', tool_name = ''fail'',
          raw_input = [(''x'', PyInt 5)], raw_output = PyStr ''division by zero''\<rparr> \<and>
   acall_tool failing_tool [(''x'', PyInt 5)] =
     Inr \<lparr>content = ''Encountered error: division by zero'', tool_name = ''fail'',
          raw_input = [(''x'', PyInt 5)], raw_output = PyStr ''division by zero''\<rparr> \<and>
   call exiting_tool (Keywords [(''code'', PyInt 1), (''now'', PyBool True)]) =
     Inl (Raised False ''bye'') \<and>
   acall (adapt_to_async_tool exiting_tool) (Keywords [(''code'', PyInt 1), (''now'', PyBool True)]) =
     Inl (Raised False ''bye'') \<and>
   \<not> is_Exception (Raised False ''bye'') \<and>
   call_tool exiting_tool [(''code'', PyInt 1), (''now'', PyBool True)] =
     Inl (Propagated (Raised False ''bye'')) \<and>
   acall_tool exiting_tool [(''code'', PyInt 1), (''now'', PyBool True)] =
     Inl (Propagated (Raised False ''bye''))"
  using call_tool_catches_exactly_Exception
          [of failing_tool "[(''x'', PyInt 5)]" "Raised True ''division by zero''"]
        call_tool_catches_exactly_Exception
          [of exiting_tool "[(''code'', PyInt 1), (''now'', PyBool True)]" "Raised False ''bye''"]
  by (simp add: failing_tool_def exiting_tool_def)

text \<open>
  The invoker raises only what the handler lets through: when the attempted invocation
  returns, or raises an instance of \<^verbatim>\<open>Exception\<close>, \<^verbatim>\<open>call_tool\<close> returns.
\<close>

lemma except_Exception_returns:
  "(\<forall>e. outcome = Inl e \<longrightarrow> is_Exception e) \<Longrightarrow> \<exists>out. except_Exception tool arguments outcome = Inr out"
  by (cases outcome) (simp_all add: except_Exception_def)

text \<open>
  C4: if the tool's declared schema has exactly one parameter and the call supplies
  exactly one argument, the tool is invoked with that argument's value, positionally;
  in every other case it is invoked with the whole argument mapping as keyword
  arguments. In both cases the result of the invoker is that invocation's outcome under
  the handler, for \<^verbatim>\<open>call_tool\<close> on the synchronous entry and for \<^verbatim>\<open>acall_tool\<close> on the
  asynchronous entry of the adapted tool.
\<close>

theorem call_tool_binding:
  "(length (properties (metadata tool)) = 1 \<and> length arguments = 1 \<longrightarrow>
      call_tool tool arguments =
        except_Exception tool arguments (call tool (Positional (snd (hd arguments)))) \<and>
      acall_tool tool arguments =
        except_Exception tool arguments
          (acall (adapt_to_async_tool tool) (Positional (snd (hd arguments))))) \<and>
   (\<not> (length (properties (metadata tool)) = 1 \<and> length arguments = 1) \<longrightarrow>
      call_tool tool arguments =
        except_Exception tool arguments (call tool (Keywords arguments)) \<and>
      acall_tool tool arguments =
        except_Exception tool arguments (acall (adapt_to_async_tool tool) (Keywords arguments)))"
  by (simp add: call_tool_def acall_tool_def Let_def)

theorem call_tool_binding_witness:
  "length (properties (metadata echo_tool)) = 1 \<and> length [(''x'', PyInt 5)] = 1 \<and>
   call_tool echo_tool [(''x'', PyInt 5)] =
     Inr \<lparr>content = ''positional'', tool_name = ''echo'', raw_input = [],
          raw_output = PyInt 5\<rparr> \<and>
   \<not> (length (properties (metadata add_tool)) = 1 \<and> length (tool_kwargs scenario_selection) = 1) \<and>
   call_tool add_tool (tool_kwargs scenario_selection) =
     Inr \<lparr>content = ''sum'', tool_name = ''add'',
          raw_input = [(''a'', PyInt 2), (''b'', PyInt 3)], raw_output = PyInt 5\<rparr>"
  using call_tool_binding [of echo_tool "[(''x'', PyInt 5)]"]
        call_tool_binding [of add_tool "tool_kwargs scenario_selection"]
  by (simp add: echo_tool_def add_tool_def scenario_selection_def except_Exception_def)

section \<open>Unfolding one step\<close>

lemma tools_by_name_absent:
  "nm \<notin> (\<lambda>tool. name (metadata tool)) ` set tools \<Longrightarrow> tools_by_name tools nm = None"
  by (simp add: tools_by_name_def map_of_eq_None_iff image_image)

lemma tools_by_name_member:
  "tools_by_name tools nm = Some tool \<Longrightarrow> tool \<in> set tools \<and> name (metadata tool) = nm"
  by (auto simp: tools_by_name_def dest!: map_of_SomeD)

text \<open>
  The state of the task when the backend is consulted: the step's input, if it carries
  one, has been appended to the new memory as a user message.
\<close>

lemma run_step_tool_call:
  assumes "extra_state task = Some st"
    and "get_tools w (input task) = Inr tools"
    and "chat_with_tool (worker_llm w) tools
           (prefix_messages w @ memory task @ add_user_step_to_memory step (new_memory st)) = Inr resp"
    and "get_tool_call_from_response (worker_llm w) resp = Inr (Some tc)"
  shows "run_step w new_id step task =
     (case call_function w tools tc
             (add_user_step_to_memory step (new_memory st) @ [message resp]) (sources st) (verbose w) of
        Inl e \<Rightarrow>
          (Inl e,
           task\<lparr>extra_state :=
                  Some (st\<lparr>new_memory := add_user_step_to_memory step (new_memory st) @ [message resp]\<rparr>)\<rparr>)
      | Inr (mem3, srcs3) \<Rightarrow>
          (Inr \<lparr>step_output = \<lparr>response = response_str resp, response_sources = srcs3\<rparr>,
                task_step = step, is_last = False,
                next_steps = [get_next_step step new_id None]\<rparr>,
           task\<lparr>extra_state := Some (st\<lparr>new_memory := mem3, sources := srcs3\<rparr>)\<rparr>))"
proof (cases "step_input step")
  case None
  with assms show ?thesis
    by (simp add: run_step_def get_all_messages_def add_user_step_to_memory_def memory_get_def
        memory_get_all_def memory_put_def split: sum.splits prod.splits)
next
  case (Some inp)
  with assms show ?thesis
    by (simp add: run_step_def get_all_messages_def add_user_step_to_memory_def memory_get_def
        memory_get_all_def memory_put_def split: sum.splits prod.splits)
qed

lemma arun_step_tool_call:
  assumes "extra_state task = Some st"
    and "get_tools w (input task) = Inr tools"
    and "achat_with_tool (worker_llm w) tools
           (prefix_messages w @ memory task @ add_user_step_to_memory step (new_memory st)) = Inr resp"
    and "get_tool_call_from_response (worker_llm w) resp = Inr (Some tc)"
  shows "arun_step w new_id step task =
     (case acall_function w tools tc
             (add_user_step_to_memory step (new_memory st) @ [message resp]) (sources st) (verbose w) of
        Inl e \<Rightarrow>
          (Inl e,
           task\<lparr>extra_state :=
                  Some (st\<lparr>new_memory := add_user_step_to_memory step (new_memory st) @ [message resp]\<rparr>)\<rparr>)
      | Inr (mem3, srcs3) \<Rightarrow>
          (Inr \<lparr>step_output = \<lparr>response = response_str resp, response_sources = srcs3\<rparr>,
                task_step = step, is_last = False,
                next_steps = [get_next_step step new_id None]\<rparr>,
           task\<lparr>extra_state := Some (st\<lparr>new_memory := mem3, sources := srcs3\<rparr>)\<rparr>))"
proof (cases "step_input step")
  case None
  with assms show ?thesis
    by (simp add: arun_step_def get_all_messages_def add_user_step_to_memory_def memory_get_def
        memory_get_all_def memory_put_def split: sum.splits prod.splits)
next
  case (Some inp)
  with assms show ?thesis
    by (simp add: arun_step_def get_all_messages_def add_user_step_to_memory_def memory_get_def
        memory_get_all_def memory_put_def split: sum.splits prod.splits)
qed

lemma run_step_no_tool_call:
  assumes "extra_state task = Some st"
    and "get_tools w (input task) = Inr tools"
    and "chat_with_tool (worker_llm w) tools
           (prefix_messages w @ memory task @ add_user_step_to_memory step (new_memory st)) = Inr resp"
    and "get_tool_call_from_response (worker_llm w) resp = Inr None"
  shows "run_step w new_id step task =
     (Inr \<lparr>step_output = \<lparr>response = response_str resp, response_sources = sources st\<rparr>,
           task_step = step, is_last = True, next_steps = []\<rparr>,
      task\<lparr>extra_state :=
             Some (st\<lparr>new_memory := add_user_step_to_memory step (new_memory st) @ [message resp]\<rparr>)\<rparr>)"
proof (cases "step_input step")
  case None
  with assms show ?thesis
    by (simp add: run_step_def get_all_messages_def add_user_step_to_memory_def memory_get_def
        memory_get_all_def memory_put_def)
next
  case (Some inp)
  with assms show ?thesis
    by (simp add: run_step_def get_all_messages_def add_user_step_to_memory_def memory_get_def
        memory_get_all_def memory_put_def)
qed

lemma arun_step_no_tool_call:
  assumes "extra_state task = Some st"
    and "get_tools w (input task) = Inr tools"
    and "achat_with_tool (worker_llm w) tools
           (prefix_messages w @ memory task @ add_user_step_to_memory step (new_memory st)) = Inr resp"
    and "get_tool_call_from_response (worker_llm w) resp = Inr None"
  shows "arun_step w new_id step task =
     (Inr \<lparr>step_output = \<lparr>response = response_str resp, response_sources = sources st\<rparr>,
           task_step = step, is_last = True, next_steps = []\<rparr>,
      task\<lparr>extra_state :=
             Some (st\<lparr>new_memory := add_user_step_to_memory step (new_memory st) @ [message resp]\<rparr>)\<rparr>)"
proof (cases "step_input step")
  case None
  with assms show ?thesis
    by (simp add: arun_step_def get_all_messages_def add_user_step_to_memory_def memory_get_def
        memory_get_all_def memory_put_def)
next
  case (Some inp)
  with assms show ?thesis
    by (simp add: arun_step_def get_all_messages_def add_user_step_to_memory_def memory_get_def
        memory_get_all_def memory_put_def)
qed

section \<open>Lookup errors\<close>

text \<open>
  C7: when the tool name of a selection is absent from the resolved tool set, every
  function on the invocation path raises instead of returning a ToolOutput:
  \<open>get_function_by_name\<close> raises \<^verbatim>\<open>ValueError\<close>, \<^verbatim>\<open>call_tool_with_selection\<close> and
  \<^verbatim>\<open>acall_tool_with_selection\<close> raise \<^verbatim>\<open>KeyError\<close>, \<^verbatim>\<open>_call_function\<close> and
  \<^verbatim>\<open>_acall_function\<close> raise the \<^verbatim>\<open>ValueError\<close> of the lookup made for the event
  payload, and a step whose backend selects that name raises it to the caller of
  \<^verbatim>\<open>run_step\<close> or \<^verbatim>\<open>arun_step\<close>.
\<close>

theorem absent_tool_raises:
  assumes "selection_tool_name tool_call \<notin> (\<lambda>tool. name (metadata tool)) ` set tools"
  shows "get_function_by_name tools (selection_tool_name tool_call) =
           Inl (ValueError (''Tool with name '' @ selection_tool_name tool_call @ '' not found'')) \<and>
         call_tool_with_selection tool_call tools verb =
           Inl (KeyError (selection_tool_name tool_call)) \<and>
         acall_tool_with_selection tool_call tools verb =
           Inl (KeyError (selection_tool_name tool_call)) \<and>
         call_function w tools tool_call mem srcs verb =
           Inl (ValueError (''Tool with name '' @ selection_tool_name tool_call @ '' not found'')) \<and>
         acall_function w tools tool_call mem srcs verb =
           Inl (ValueError (''Tool with name '' @ selection_tool_name tool_call @ '' not found'')) \<and>
         (extra_state task = Some st \<and>
          get_tools w (input task) = Inr tools \<and>
          chat_with_tool (worker_llm w) tools
            (prefix_messages w @ memory task @ add_user_step_to_memory step (new_memory st)) = Inr resp \<and>
          get_tool_call_from_response (worker_llm w) resp = Inr (Some tool_call)
          \<longrightarrow> fst (run_step w new_id step task) =
                Inl (ValueError (''Tool with name '' @ selection_tool_name tool_call @ '' not found''))) \<and>
         (extra_state task = Some st \<and>
          get_tools w (input task) = Inr tools \<and>
          achat_with_tool (worker_llm w) tools
            (prefix_messages w @ memory task @ add_user_step_to_memory step (new_memory st)) = Inr resp \<and>
          get_tool_call_from_response (worker_llm w) resp = Inr (Some tool_call)
          \<longrightarrow> fst (arun_step w new_id step task) =
                Inl (ValueError (''Tool with name '' @ selection_tool_name tool_call @ '' not found'')))"
proof -
  have absent: "tools_by_name tools (selection_tool_name tool_call) = None"
    using assms by (rule tools_by_name_absent)
  have lookup: "get_function_by_name tools (selection_tool_name tool_call) =
      Inl (ValueError (''Tool with name '' @ selection_tool_name tool_call @ '' not found''))"
    using absent by (simp add: get_function_by_name_def)
  have sync: "call_function w tools tool_call m s v =
      Inl (ValueError (''Tool with name '' @ selection_tool_name tool_call @ '' not found''))"
    for m s v
    using lookup by (simp add: call_function_def)
  have async: "acall_function w tools tool_call m s v =
      Inl (ValueError (''Tool with name '' @ selection_tool_name tool_call @ '' not found''))"
    for m s v
    using lookup by (simp add: acall_function_def)
  show ?thesis
  proof (intro conjI impI)
    show "get_function_by_name tools (selection_tool_name tool_call) =
        Inl (ValueError (''Tool with name '' @ selection_tool_name tool_call @ '' not found''))"
      by (rule lookup)
    show "call_tool_with_selection tool_call tools verb = Inl (KeyError (selection_tool_name tool_call))"
      using absent by (simp add: call_tool_with_selection_def)
    show "acall_tool_with_selection tool_call tools verb = Inl (KeyError (selection_tool_name tool_call))"
      using absent by (simp add: acall_tool_with_selection_def)
    show "call_function w tools tool_call mem srcs verb =
        Inl (ValueError (''Tool with name '' @ selection_tool_name tool_call @ '' not found''))"
      by (rule sync)
    show "acall_function w tools tool_call mem srcs verb =
        Inl (ValueError (''Tool with name '' @ selection_tool_name tool_call @ '' not found''))"
      by (rule async)
  next
    assume "extra_state task = Some st \<and>
          get_tools w (input task) = Inr tools \<and>
          chat_with_tool (worker_llm w) tools
            (prefix_messages w @ memory task @ add_user_step_to_memory step (new_memory st)) = Inr resp \<and>
          get_tool_call_from_response (worker_llm w) resp = Inr (Some tool_call)"
    then have "run_step w new_id step task =
       (case call_function w tools tool_call
               (add_user_step_to_memory step (new_memory st) @ [message resp]) (sources st) (verbose w) of
          Inl e \<Rightarrow>
            (Inl e,
             task\<lparr>extra_state :=
                    Some (st\<lparr>new_memory := add_user_step_to_memory step (new_memory st) @ [message resp]\<rparr>)\<rparr>)
        | Inr (mem3, srcs3) \<Rightarrow>
            (Inr \<lparr>step_output = \<lparr>response = response_str resp, response_sources = srcs3\<rparr>,
                  task_step = step, is_last = False,
                  next_steps = [get_next_step step new_id None]\<rparr>,
             task\<lparr>extra_state := Some (st\<lparr>new_memory := mem3, sources := srcs3\<rparr>)\<rparr>))"
      by (intro run_step_tool_call) simp_all
    then show "fst (run_step w new_id step task) =
        Inl (ValueError (''Tool with name '' @ selection_tool_name tool_call @ '' not found''))"
      by (simp add: sync)
  next
    assume "extra_state task = Some st \<and>
          get_tools w (input task) = Inr tools \<and>
          achat_with_tool (worker_llm w) tools
            (prefix_messages w @ memory task @ add_user_step_to_memory step (new_memory st)) = Inr resp \<and>
          get_tool_call_from_response (worker_llm w) resp = Inr (Some tool_call)"
    then have "arun_step w new_id step task =
       (case acall_function w tools tool_call
               (add_user_step_to_memory step (new_memory st) @ [message resp]) (sources st) (verbose w) of
          Inl e \<Rightarrow>
            (Inl e,
             task\<lparr>extra_state :=
                    Some (st\<lparr>new_memory := add_user_step_to_memory step (new_memory st) @ [message resp]\<rparr>)\<rparr>)
        | Inr (mem3, srcs3) \<Rightarrow>
            (Inr \<lparr>step_output = \<lparr>response = response_str resp, response_sources = srcs3\<rparr>,
                  task_step = step, is_last = False,
                  next_steps = [get_next_step step new_id None]\<rparr>,
             task\<lparr>extra_state := Some (st\<lparr>new_memory := mem3, sources := srcs3\<rparr>)\<rparr>))"
      by (intro arun_step_tool_call) simp_all
    then show "fst (arun_step w new_id step task) =
        Inl (ValueError (''Tool with name '' @ selection_tool_name tool_call @ '' not found''))"
      by (simp add: async)
  qed
qed

theorem absent_tool_raises_witness:
  "selection_tool_name scenario_selection
     \<notin> (\<lambda>tool. name (metadata tool)) ` set [adapt_to_async_tool echo_tool] \<and>
   get_function_by_name [adapt_to_async_tool echo_tool] ''add'' =
     Inl (ValueError ''Tool with name add not found'') \<and>
   call_tool_with_selection scenario_selection [adapt_to_async_tool echo_tool] False =
     Inl (KeyError ''add'') \<and>
   acall_tool_with_selection scenario_selection [adapt_to_async_tool echo_tool] False =
     Inl (KeyError ''add'') \<and>
   fst (run_step (scenario_worker\<lparr>get_tools_fn := \<lambda>inp. Inr [echo_tool]\<rparr>) ''s2''
          (fst (initialize_step ''s1'' scenario_task)) (snd (initialize_step ''s1'' scenario_task))) =
     Inl (ValueError ''Tool with name add not found'') \<and>
   fst (arun_step (scenario_worker\<lparr>get_tools_fn := \<lambda>inp. Inr [echo_tool]\<rparr>) ''s2''
          (fst (initialize_step ''s1'' scenario_task)) (snd (initialize_step ''s1'' scenario_task))) =
     Inl (ValueError ''Tool with name add not found'')"
  using absent_tool_raises
          [where tool_call = scenario_selection
             and tools = "[adapt_to_async_tool echo_tool]"
             and verb = False
             and task = "snd (initialize_step ''s1'' scenario_task)"
             and st = "\<lparr>sources = [], n_function_calls = 0, new_memory = []\<rparr>"
             and w = "scenario_worker\<lparr>get_tools_fn := \<lambda>inp. Inr [echo_tool]\<rparr>"
             and step = "fst (initialize_step ''s1'' scenario_task)"
             and resp = "\<lparr>message = \<lparr>role = ASSISTANT, message_content = [], additional_kwargs = []\<rparr>,
                         response_str = ''assistant: ''\<rparr>"
             and new_id = "''s2''"]
  by (simp add: scenario_selection_def echo_tool_def scenario_worker_def scenario_llm_def
      scenario_chat_def scenario_task_def initialize_step_def get_tools_def
      add_user_step_to_memory_def memory_put_def)

section \<open>Message assembly and finalization\<close>

lemma run_step_backend:
  assumes "extra_state task = Some st" and "get_tools w (input task) = Inr tools"
  shows "run_step w new_id step task =
              (case chat_with_tool (worker_llm w) tools
                      (prefix_messages w @ memory task @
                       add_user_step_to_memory step (new_memory st)) of
                 Inl e \<Rightarrow>
                   (Inl (Propagated e),
                    task\<lparr>extra_state :=
                      Some (st\<lparr>new_memory := add_user_step_to_memory step (new_memory st)\<rparr>)\<rparr>)
               | Inr resp \<Rightarrow>
                   (case get_tool_call_from_response (worker_llm w) resp of
                      Inl e \<Rightarrow>
                        (Inl (Propagated e),
                         task\<lparr>extra_state :=
                           Some (st\<lparr>new_memory := add_user_step_to_memory step (new_memory st)\<rparr>)\<rparr>)
                    | Inr tool_call \<Rightarrow>
                        (case tool_call of
                           None \<Rightarrow>
                             (Inr \<lparr>step_output =
                                     \<lparr>response = response_str resp,
                                      response_sources = sources st\<rparr>,
                                   task_step = step, is_last = True, next_steps = []\<rparr>,
                              task\<lparr>extra_state :=
                                Some (st\<lparr>new_memory :=
                                  add_user_step_to_memory step (new_memory st) @ [message resp]\<rparr>)\<rparr>)
                         | Some tc \<Rightarrow>
                             (case call_function w tools tc
                                     (add_user_step_to_memory step (new_memory st) @ [message resp])
                                     (sources st) (verbose w) of
                                Inl e \<Rightarrow>
                                  (Inl e,
                                   task\<lparr>extra_state :=
                                     Some (st\<lparr>new_memory :=
                                       add_user_step_to_memory step (new_memory st) @
                                       [message resp]\<rparr>)\<rparr>)
                              | Inr (mem3, srcs3) \<Rightarrow>
                                  (Inr \<lparr>step_output =
                                          \<lparr>response = response_str resp,
                                           response_sources = srcs3\<rparr>,
                                        task_step = step, is_last = False,
                                        next_steps = [get_next_step step new_id None]\<rparr>,
                                   task\<lparr>extra_state :=
                                     Some (st\<lparr>new_memory := mem3, sources := srcs3\<rparr>)\<rparr>)))))"
proof -
  have same: "task\<lparr>extra_state := Some st\<rparr> = task"
    using assms(1) by (cases task) simp
  show ?thesis
  proof (cases "step_input step")
    case None
    with assms same show ?thesis
      by (simp add: run_step_def get_all_messages_def add_user_step_to_memory_def memory_get_def
          memory_get_all_def memory_put_def split: sum.splits option.splits prod.splits)
  next
    case (Some inp)
    with assms show ?thesis
      by (simp add: run_step_def get_all_messages_def add_user_step_to_memory_def memory_get_def
          memory_get_all_def memory_put_def split: sum.splits option.splits prod.splits)
  qed
qed

lemma arun_step_backend:
  assumes "extra_state task = Some st" and "get_tools w (input task) = Inr tools"
  shows "arun_step w new_id step task =
              (case achat_with_tool (worker_llm w) tools
                      (prefix_messages w @ memory task @
                       add_user_step_to_memory step (new_memory st)) of
                 Inl e \<Rightarrow>
                   (Inl (Propagated e),
                    task\<lparr>extra_state :=
                      Some (st\<lparr>new_memory := add_user_step_to_memory step (new_memory st)\<rparr>)\<rparr>)
               | Inr resp \<Rightarrow>
                   (case get_tool_call_from_response (worker_llm w) resp of
                      Inl e \<Rightarrow>
                        (Inl (Propagated e),
                         task\<lparr>extra_state :=
                           Some (st\<lparr>new_memory := add_user_step_to_memory step (new_memory st)\<rparr>)\<rparr>)
                    | Inr tool_call \<Rightarrow>
                        (case tool_call of
                           None \<Rightarrow>
                             (Inr \<lparr>step_output =
                                     \<lparr>response = response_str resp,
                                      response_sources = sources st\<rparr>,
                                   task_step = step, is_last = True, next_steps = []\<rparr>,
                              task\<lparr>extra_state :=
                                Some (st\<lparr>new_memory :=
                                  add_user_step_to_memory step (new_memory st) @ [message resp]\<rparr>)\<rparr>)
                         | Some tc \<Rightarrow>
                             (case acall_function w tools tc
                                     (add_user_step_to_memory step (new_memory st) @ [message resp])
                                     (sources st) (verbose w) of
                                Inl e \<Rightarrow>
                                  (Inl e,
                                   task\<lparr>extra_state :=
                                     Some (st\<lparr>new_memory :=
                                       add_user_step_to_memory step (new_memory st) @
                                       [message resp]\<rparr>)\<rparr>)
                              | Inr (mem3, srcs3) \<Rightarrow>
                                  (Inr \<lparr>step_output =
                                          \<lparr>response = response_str resp,
                                           response_sources = srcs3\<rparr>,
                                        task_step = step, is_last = False,
                                        next_steps = [get_next_step step new_id None]\<rparr>,
                                   task\<lparr>extra_state :=
                                     Some (st\<lparr>new_memory := mem3, sources := srcs3\<rparr>)\<rparr>)))))"
proof -
  have same: "task\<lparr>extra_state := Some st\<rparr> = task"
    using assms(1) by (cases task) simp
  show ?thesis
  proof (cases "step_input step")
    case None
    with assms same show ?thesis
      by (simp add: arun_step_def get_all_messages_def add_user_step_to_memory_def memory_get_def
          memory_get_all_def memory_put_def split: sum.splits option.splits prod.splits)
  next
    case (Some inp)
    with assms show ?thesis
      by (simp add: arun_step_def get_all_messages_def add_user_step_to_memory_def memory_get_def
          memory_get_all_def memory_put_def split: sum.splits option.splits prod.splits)
  qed
qed

lemma run_step_backend_only_at_context:
  assumes "extra_state task = Some st"
    and "\<forall>ts. get_tools w (input task) = Inr ts \<longrightarrow>
             f ts (prefix_messages w @ memory task @ add_user_step_to_memory step (new_memory st)) =
             chat_with_tool (worker_llm w) ts
               (prefix_messages w @ memory task @ add_user_step_to_memory step (new_memory st))"
  shows "run_step (w\<lparr>worker_llm := (worker_llm w)\<lparr>chat_with_tool := f\<rparr>\<rparr>) new_id step task =
         run_step w new_id step task"
proof (cases "get_tools w (input task)")
  case (Inl e)
  have tools: "get_tools (w\<lparr>worker_llm := (worker_llm w)\<lparr>chat_with_tool := f\<rparr>\<rparr>) = get_tools w"
    by (simp add: get_tools_def fun_eq_iff)
  from Inl assms(1) show ?thesis
    by (cases "step_input step") (simp_all add: run_step_def tools)
next
  case (Inr ts)
  have tools: "get_tools (w\<lparr>worker_llm := (worker_llm w)\<lparr>chat_with_tool := f\<rparr>\<rparr>) (input task) = Inr ts"
    using Inr by (simp add: get_tools_def)
  have fn: "call_function (w\<lparr>worker_llm := (worker_llm w)\<lparr>chat_with_tool := f\<rparr>\<rparr>) = call_function w"
    by (simp add: call_function_def fun_eq_iff)
  from Inr assms(2) have eq:
    "f ts (prefix_messages w @ memory task @ add_user_step_to_memory step (new_memory st)) =
     chat_with_tool (worker_llm w) ts
       (prefix_messages w @ memory task @ add_user_step_to_memory step (new_memory st))"
    by simp
  show ?thesis
    unfolding run_step_backend [OF assms(1) Inr] run_step_backend [OF assms(1) tools]
    by (simp add: eq fn cong: sum.case_cong option.case_cong)
qed

lemma arun_step_backend_only_at_context:
  assumes "extra_state task = Some st"
    and "\<forall>ts. get_tools w (input task) = Inr ts \<longrightarrow>
             f ts (prefix_messages w @ memory task @ add_user_step_to_memory step (new_memory st)) =
             achat_with_tool (worker_llm w) ts
               (prefix_messages w @ memory task @ add_user_step_to_memory step (new_memory st))"
  shows "arun_step (w\<lparr>worker_llm := (worker_llm w)\<lparr>achat_with_tool := f\<rparr>\<rparr>) new_id step task =
         arun_step w new_id step task"
proof (cases "get_tools w (input task)")
  case (Inl e)
  have tools: "get_tools (w\<lparr>worker_llm := (worker_llm w)\<lparr>achat_with_tool := f\<rparr>\<rparr>) = get_tools w"
    by (simp add: get_tools_def fun_eq_iff)
  from Inl assms(1) show ?thesis
    by (cases "step_input step") (simp_all add: arun_step_def tools)
next
  case (Inr ts)
  have tools: "get_tools (w\<lparr>worker_llm := (worker_llm w)\<lparr>achat_with_tool := f\<rparr>\<rparr>) (input task) = Inr ts"
    using Inr by (simp add: get_tools_def)
  have fn: "acall_function (w\<lparr>worker_llm := (worker_llm w)\<lparr>achat_with_tool := f\<rparr>\<rparr>) = acall_function w"
    by (simp add: acall_function_def fun_eq_iff)
  from Inr assms(2) have eq:
    "f ts (prefix_messages w @ memory task @ add_user_step_to_memory step (new_memory st)) =
     achat_with_tool (worker_llm w) ts
       (prefix_messages w @ memory task @ add_user_step_to_memory step (new_memory st))"
    by simp
  show ?thesis
    unfolding arun_step_backend [OF assms(1) Inr] arun_step_backend [OF assms(1) tools]
    by (simp add: eq fn cong: sum.case_cong option.case_cong)
qed

text \<open>
  C8: the message context is the worker's prefix messages, followed by the task's
  durable memory, followed by the task's new memory (the ephemeral buffer), in that
  order, and it is the context handed to the backend: once the tools are resolved, the
  result of \<open>run_step\<close> is what follows from the answer of the backend's blocking chat
  call to those tools and this context (taken after the step's input, if any, has been
  appended to the buffer), the result of \<open>arun_step\<close> is what follows from the answer of
  the suspending chat call to them, and neither depends on the backend's chat function
  at any other chat history.
\<close>

theorem get_all_messages_order:
  assumes "extra_state task = Some st"
  shows "get_all_messages w task = Inr (prefix_messages w @ memory task @ new_memory st) \<and>
         (get_tools w (input task) = Inr tools \<longrightarrow>
            run_step w new_id step task =
              (case chat_with_tool (worker_llm w) tools
                      (prefix_messages w @ memory task @
                       add_user_step_to_memory step (new_memory st)) of
                 Inl e \<Rightarrow>
                   (Inl (Propagated e),
                    task\<lparr>extra_state :=
                      Some (st\<lparr>new_memory := add_user_step_to_memory step (new_memory st)\<rparr>)\<rparr>)
               | Inr resp \<Rightarrow>
                   (case get_tool_call_from_response (worker_llm w) resp of
                      Inl e \<Rightarrow>
                        (Inl (Propagated e),
                         task\<lparr>extra_state :=
                           Some (st\<lparr>new_memory := add_user_step_to_memory step (new_memory st)\<rparr>)\<rparr>)
                    | Inr tool_call \<Rightarrow>
                        (case tool_call of
                           None \<Rightarrow>
                             (Inr \<lparr>step_output =
                                     \<lparr>response = response_str resp,
                                      response_sources = sources st\<rparr>,
                                   task_step = step, is_last = True, next_steps = []\<rparr>,
                              task\<lparr>extra_state :=
                                Some (st\<lparr>new_memory :=
                                  add_user_step_to_memory step (new_memory st) @ [message resp]\<rparr>)\<rparr>)
                         | Some tc \<Rightarrow>
                             (case call_function w tools tc
                                     (add_user_step_to_memory step (new_memory st) @ [message resp])
                                     (sources st) (verbose w) of
                                Inl e \<Rightarrow>
                                  (Inl e,
                                   task\<lparr>extra_state :=
                                     Some (st\<lparr>new_memory :=
                                       add_user_step_to_memory step (new_memory st) @
                                       [message resp]\<rparr>)\<rparr>)
                              | Inr (mem3, srcs3) \<Rightarrow>
                                  (Inr \<lparr>step_output =
                                          \<lparr>response = response_str resp,
                                           response_sources = srcs3\<rparr>,
                                        task_step = step, is_last = False,
                                        next_steps = [get_next_step step new_id None]\<rparr>,
                                   task\<lparr>extra_state :=
                                     Some (st\<lparr>new_memory := mem3, sources := srcs3\<rparr>)\<rparr>)))))) \<and>
         (get_tools w (input task) = Inr tools \<longrightarrow>
            arun_step w new_id step task =
              (case achat_with_tool (worker_llm w) tools
                      (prefix_messages w @ memory task @
                       add_user_step_to_memory step (new_memory st)) of
                 Inl e \<Rightarrow>
                   (Inl (Propagated e),
                    task\<lparr>extra_state :=
                      Some (st\<lparr>new_memory := add_user_step_to_memory step (new_memory st)\<rparr>)\<rparr>)
               | Inr resp \<Rightarrow>
                   (case get_tool_call_from_response (worker_llm w) resp of
                      Inl e \<Rightarrow>
                        (Inl (Propagated e),
                         task\<lparr>extra_state :=
                           Some (st\<lparr>new_memory := add_user_step_to_memory step (new_memory st)\<rparr>)\<rparr>)
                    | Inr tool_call \<Rightarrow>
                        (case tool_call of
                           None \<Rightarrow>
                             (Inr \<lparr>step_output =
                                     \<lparr>response = response_str resp,
                                      response_sources = sources st\<rparr>,
                                   task_step = step, is_last = True, next_steps = []\<rparr>,
                              task\<lparr>extra_state :=
                                Some (st\<lparr>new_memory :=
                                  add_user_step_to_memory step (new_memory st) @ [message resp]\<rparr>)\<rparr>)
                         | Some tc \<Rightarrow>
                             (case acall_function w tools tc
                                     (add_user_step_to_memory step (new_memory st) @ [message resp])
                                     (sources st) (verbose w) of
                                Inl e \<Rightarrow>
                                  (Inl e,
                                   task\<lparr>extra_state :=
                                     Some (st\<lparr>new_memory :=
                                       add_user_step_to_memory step (new_memory st) @
                                       [message resp]\<rparr>)\<rparr>)
                              | Inr (mem3, srcs3) \<Rightarrow>
                                  (Inr \<lparr>step_output =
                                          \<lparr>response = response_str resp,
                                           response_sources = srcs3\<rparr>,
                                        task_step = step, is_last = False,
                                        next_steps = [get_next_step step new_id None]\<rparr>,
                                   task\<lparr>extra_state :=
                                     Some (st\<lparr>new_memory := mem3, sources := srcs3\<rparr>)\<rparr>)))))) \<and>
         ((\<forall>ts. get_tools w (input task) = Inr ts \<longrightarrow>
             f ts (prefix_messages w @ memory task @ add_user_step_to_memory step (new_memory st)) =
             chat_with_tool (worker_llm w) ts
               (prefix_messages w @ memory task @ add_user_step_to_memory step (new_memory st)))
          \<longrightarrow> run_step (w\<lparr>worker_llm := (worker_llm w)\<lparr>chat_with_tool := f\<rparr>\<rparr>) new_id step task =
               run_step w new_id step task) \<and>
         ((\<forall>ts. get_tools w (input task) = Inr ts \<longrightarrow>
             f ts (prefix_messages w @ memory task @ add_user_step_to_memory step (new_memory st)) =
             achat_with_tool (worker_llm w) ts
               (prefix_messages w @ memory task @ add_user_step_to_memory step (new_memory st)))
          \<longrightarrow> arun_step (w\<lparr>worker_llm := (worker_llm w)\<lparr>achat_with_tool := f\<rparr>\<rparr>) new_id step task =
               arun_step w new_id step task)"
proof (intro conjI impI)
  show "get_all_messages w task = Inr (prefix_messages w @ memory task @ new_memory st)"
    using assms by (simp add: get_all_messages_def memory_get_def memory_get_all_def)
qed (simp_all only: run_step_backend [OF assms] arun_step_backend [OF assms]
       run_step_backend_only_at_context [OF assms]
       arun_step_backend_only_at_context [OF assms])

theorem get_all_messages_order_witness:
  "extra_state probe_task = Some probe_state \<and>
   get_tools probe_worker (input probe_task) = Inr [adapt_to_async_tool add_tool] \<and>
   get_all_messages probe_worker probe_task = Inr probe_context \<and>
   run_step probe_worker ''s3'' \<lparr>step_task_id = ''t1'', step_id = ''s2'', step_input = None\<rparr>
     probe_task =
     (Inr \<lparr>step_output =
             \<lparr>response = ''assistant: 7'', response_sources = sources probe_state\<rparr>,
           task_step = \<lparr>step_task_id = ''t1'', step_id = ''s2'', step_input = None\<rparr>,
           is_last = True, next_steps = []\<rparr>,
      probe_task\<lparr>extra_state := Some (probe_state\<lparr>new_memory :=
        new_memory probe_state @
        [\<lparr>role = ASSISTANT, message_content = ''7'', additional_kwargs = []\<rparr>]\<rparr>)\<rparr>) \<and>
   arun_step probe_worker ''s3'' \<lparr>step_task_id = ''t1'', step_id = ''s2'', step_input = None\<rparr>
     probe_task =
     (Inr \<lparr>step_output =
             \<lparr>response = ''assistant: 7'', response_sources = sources probe_state\<rparr>,
           task_step = \<lparr>step_task_id = ''t1'', step_id = ''s2'', step_input = None\<rparr>,
           is_last = True, next_steps = []\<rparr>,
      probe_task\<lparr>extra_state := Some (probe_state\<lparr>new_memory :=
        new_memory probe_state @
        [\<lparr>role = ASSISTANT, message_content = ''7'', additional_kwargs = []\<rparr>]\<rparr>)\<rparr>) \<and>
   scenario_chat [adapt_to_async_tool add_tool] probe_context =
     chat_with_tool (worker_llm probe_worker) [adapt_to_async_tool add_tool] probe_context \<and>
   run_step (probe_worker\<lparr>worker_llm := (worker_llm probe_worker)\<lparr>chat_with_tool := scenario_chat\<rparr>\<rparr>)
     ''s3'' \<lparr>step_task_id = ''t1'', step_id = ''s2'', step_input = None\<rparr> probe_task =
   run_step probe_worker ''s3'' \<lparr>step_task_id = ''t1'', step_id = ''s2'', step_input = None\<rparr>
     probe_task \<and>
   arun_step (probe_worker\<lparr>worker_llm := (worker_llm probe_worker)\<lparr>achat_with_tool := scenario_chat\<rparr>\<rparr>)
     ''s3'' \<lparr>step_task_id = ''t1'', step_id = ''s2'', step_input = None\<rparr> probe_task =
   arun_step probe_worker ''s3'' \<lparr>step_task_id = ''t1'', step_id = ''s2'', step_input = None\<rparr>
     probe_task"
proof -
  let ?step = "\<lparr>step_task_id = ''t1'', step_id = ''s2'', step_input = None\<rparr>"
  have st: "extra_state probe_task = Some probe_state"
    by (simp add: probe_task_def)
  have tools: "get_tools probe_worker (input probe_task) = Inr [adapt_to_async_tool add_tool]"
    by (simp add: get_tools_def probe_worker_def scenario_worker_def)
  have buf: "add_user_step_to_memory ?step (new_memory probe_state) = new_memory probe_state"
    by (simp add: add_user_step_to_memory_def)
  have ctx: "prefix_messages probe_worker @ memory probe_task @ new_memory probe_state = probe_context"
    by (simp add: probe_worker_def scenario_worker_def probe_task_def probe_state_def
        probe_context_def)
  have chat: "chat_with_tool (worker_llm probe_worker) ts probe_context =
      Inr \<lparr>message = \<lparr>role = ASSISTANT, message_content = ''7'', additional_kwargs = []\<rparr>,
           response_str = ''assistant: 7''\<rparr>"
    and achat: "achat_with_tool (worker_llm probe_worker) ts probe_context =
      Inr \<lparr>message = \<lparr>role = ASSISTANT, message_content = ''7'', additional_kwargs = []\<rparr>,
           response_str = ''assistant: 7''\<rparr>" for ts
    by (simp_all add: probe_worker_def scenario_llm_def probe_chat_def)
  have other: "scenario_chat ts probe_context =
      Inr \<lparr>message = \<lparr>role = ASSISTANT, message_content = ''7'', additional_kwargs = []\<rparr>,
           response_str = ''assistant: 7''\<rparr>" for ts
    by (simp add: scenario_chat_def probe_context_def)
  have sel: "get_tool_call_from_response (worker_llm probe_worker)
      \<lparr>message = \<lparr>role = ASSISTANT, message_content = ''7'', additional_kwargs = []\<rparr>,
       response_str = ''assistant: 7''\<rparr> = Inr None"
    by (simp add: probe_worker_def scenario_llm_def)
  note inst = get_all_messages_order
      [OF st, where w = probe_worker and step = ?step and new_id = "''s3''"
         and tools = "[adapt_to_async_tool add_tool]" and f = scenario_chat]
  from inst st tools show ?thesis
    by (simp add: buf ctx chat achat other sel)
qed

text \<open>
  C3: \<open>finalize_task\<close> returns, the durable memory afterwards is the durable memory
  before followed by the whole new memory in its order, and the new memory is empty
  afterwards; the output list and the counter are untouched.
\<close>

theorem finalize_task_appends:
  assumes "extra_state task = Some st"
  shows "finalize_task task =
           (Inr (), task\<lparr>memory := memory task @ new_memory st,
                         extra_state := Some (st\<lparr>new_memory := []\<rparr>)\<rparr>) \<and>
         memory (snd (finalize_task task)) = memory task @ new_memory st \<and>
         map_option new_memory (extra_state (snd (finalize_task task))) = Some []"
  using assms
  by (simp add: finalize_task_def memory_set_def memory_get_all_def memory_reset_def)

theorem finalize_task_appends_witness:
  "extra_state (scenario_task\<lparr>memory :=
       [\<lparr>role = USER, message_content = ''Hello'', additional_kwargs = []\<rparr>],
     extra_state := Some \<lparr>sources = [], n_function_calls = 0, new_memory =
       [\<lparr>role = USER, message_content = ''What is 2 + 3?'', additional_kwargs = []\<rparr>,
        \<lparr>role = ASSISTANT, message_content = ''5'', additional_kwargs = []\<rparr>]\<rparr>\<rparr>) =
     Some \<lparr>sources = [], n_function_calls = 0, new_memory =
       [\<lparr>role = USER, message_content = ''What is 2 + 3?'', additional_kwargs = []\<rparr>,
        \<lparr>role = ASSISTANT, message_content = ''5'', additional_kwargs = []\<rparr>]\<rparr> \<and>
   memory (snd (finalize_task (scenario_task\<lparr>memory :=
       [\<lparr>role = USER, message_content = ''Hello'', additional_kwargs = []\<rparr>],
     extra_state := Some \<lparr>sources = [], n_function_calls = 0, new_memory =
       [\<lparr>role = USER, message_content = ''What is 2 + 3?'', additional_kwargs = []\<rparr>,
        \<lparr>role = ASSISTANT, message_content = ''5'', additional_kwargs = []\<rparr>]\<rparr>\<rparr>))) =
     [\<lparr>role = USER, message_content = ''Hello'', additional_kwargs = []\<rparr>,
      \<lparr>role = USER, message_content = ''What is 2 + 3?'', additional_kwargs = []\<rparr>,
      \<lparr>role = ASSISTANT, message_content = ''5'', additional_kwargs = []\<rparr>] \<and>
   map_option new_memory (extra_state (snd (finalize_task (scenario_task\<lparr>memory :=
       [\<lparr>role = USER, message_content = ''Hello'', additional_kwargs = []\<rparr>],
     extra_state := Some \<lparr>sources = [], n_function_calls = 0, new_memory =
       [\<lparr>role = USER, message_content = ''What is 2 + 3?'', additional_kwargs = []\<rparr>,
        \<lparr>role = ASSISTANT, message_content = ''5'', additional_kwargs = []\<rparr>]\<rparr>\<rparr>)))) = Some []"
  using finalize_task_appends
          [where task = "scenario_task\<lparr>memory :=
               [\<lparr>role = USER, message_content = ''Hello'', additional_kwargs = []\<rparr>],
             extra_state := Some \<lparr>sources = [], n_function_calls = 0, new_memory =
               [\<lparr>role = USER, message_content = ''What is 2 + 3?'', additional_kwargs = []\<rparr>,
                \<lparr>role = ASSISTANT, message_content = ''5'', additional_kwargs = []\<rparr>]\<rparr>\<rparr>"
             and st = "\<lparr>sources = [], n_function_calls = 0, new_memory =
               [\<lparr>role = USER, message_content = ''What is 2 + 3?'', additional_kwargs = []\<rparr>,
                \<lparr>role = ASSISTANT, message_content = ''5'', additional_kwargs = []\<rparr>]\<rparr>"]
  by (simp add: scenario_task_def)

section \<open>Steps\<close>

text \<open>
  C5: when the backend returns no tool selection on the first step of a task (the step
  made by \<open>initialize_step\<close>, which carries the task's input), \<open>run_step\<close> returns
  with \<open>is_last\<close> true, no continuation step and an empty list of tool outputs, in the
  response as in the task's state.
\<close>

theorem first_step_without_tool_call:
  assumes "get_tools w (input task) = Inr tools"
    and "chat_with_tool (worker_llm w) tools
           (prefix_messages w @ memory task @
            [\<lparr>role = USER, message_content = input task, additional_kwargs = []\<rparr>]) = Inr resp"
    and "get_tool_call_from_response (worker_llm w) resp = Inr None"
  shows "fst (run_step w new_id (fst (initialize_step sid task)) (snd (initialize_step sid task))) =
           Inr \<lparr>step_output = \<lparr>response = response_str resp, response_sources = []\<rparr>,
                task_step = fst (initialize_step sid task),
                is_last = True, next_steps = []\<rparr> \<and>
         map_option sources
           (extra_state (snd (run_step w new_id (fst (initialize_step sid task))
                                (snd (initialize_step sid task))))) = Some []"
proof -
  let ?st = "\<lparr>sources = [], n_function_calls = 0, new_memory = []\<rparr>"
  let ?step = "fst (initialize_step sid task)"
  let ?task = "snd (initialize_step sid task)"
  have st: "extra_state ?task = Some ?st"
    by (simp add: initialize_step_def)
  have inp: "input ?task = input task" and mem: "memory ?task = memory task"
    by (simp_all add: initialize_step_def)
  have buf: "add_user_step_to_memory ?step (new_memory ?st) =
      [\<lparr>role = USER, message_content = input task, additional_kwargs = []\<rparr>]"
    by (simp add: initialize_step_def add_user_step_to_memory_def memory_put_def)
  have "run_step w new_id ?step ?task =
     (Inr \<lparr>step_output = \<lparr>response = response_str resp, response_sources = sources ?st\<rparr>,
           task_step = ?step, is_last = True, next_steps = []\<rparr>,
      ?task\<lparr>extra_state :=
              Some (?st\<lparr>new_memory := add_user_step_to_memory ?step (new_memory ?st) @ [message resp]\<rparr>)\<rparr>)"
    using st assms by (intro run_step_no_tool_call) (simp_all only: inp mem buf)
  then show ?thesis by simp
qed

theorem first_step_without_tool_call_witness:
  "get_tools scenario_worker
     (input (scenario_task\<lparr>memory :=
        [\<lparr>role = TOOL, message_content = ''sum'', additional_kwargs = []\<rparr>]\<rparr>)) =
     Inr [adapt_to_async_tool add_tool] \<and>
   get_tool_call_from_response (worker_llm scenario_worker)
     \<lparr>message = \<lparr>role = ASSISTANT, message_content = ''7'', additional_kwargs = []\<rparr>,
      response_str = ''assistant: 7''\<rparr> = Inr None \<and>
   fst (run_step scenario_worker ''s2''
          (fst (initialize_step ''s1'' (scenario_task\<lparr>memory :=
             [\<lparr>role = TOOL, message_content = ''sum'', additional_kwargs = []\<rparr>]\<rparr>)))
          (snd (initialize_step ''s1'' (scenario_task\<lparr>memory :=
             [\<lparr>role = TOOL, message_content = ''sum'', additional_kwargs = []\<rparr>]\<rparr>)))) =
     Inr \<lparr>step_output = \<lparr>response = ''assistant: 7'', response_sources = []\<rparr>,
          task_step = \<lparr>step_task_id = ''t1'', step_id = ''s1'', step_input = Some ''What is 2 + 3?''\<rparr>,
          is_last = True, next_steps = []\<rparr>"
  using first_step_without_tool_call
          [where w = scenario_worker
             and task = "scenario_task\<lparr>memory :=
                           [\<lparr>role = TOOL, message_content = ''sum'', additional_kwargs = []\<rparr>]\<rparr>"
             and tools = "[adapt_to_async_tool add_tool]"
             and resp = "\<lparr>message = \<lparr>role = ASSISTANT, message_content = ''7'', additional_kwargs = []\<rparr>,
                         response_str = ''assistant: 7''\<rparr>"
             and new_id = "''s2''" and sid = "''s1''"]
  by (simp add: scenario_worker_def scenario_llm_def scenario_chat_def scenario_task_def
      get_tools_def initialize_step_def)

lemma call_tool_with_selection_found:
  "call_tool_with_selection tc tools verb = Inr out \<Longrightarrow>
   \<exists>tool. get_function_by_name tools (selection_tool_name tc) = Inr tool"
  by (auto simp: call_tool_with_selection_def get_function_by_name_def split: option.splits)

lemma acall_tool_with_selection_found:
  "acall_tool_with_selection tc tools verb = Inr out \<Longrightarrow>
   \<exists>tool. get_function_by_name tools (selection_tool_name tc) = Inr tool"
  by (auto simp: acall_tool_with_selection_def get_function_by_name_def split: option.splits)

lemma call_function_appends:
  assumes "call_tool_with_selection tc tools verb = Inr out"
  shows "call_function w tools tc mem srcs verb =
     Inr (mem @ [\<lparr>role = TOOL, message_content = str_tool_output out,
                  additional_kwargs = [(''name'', selection_tool_name tc),
                                       (''tool_call_id'', tool_id tc)]\<rparr>],
          srcs @ [out])"
  using assms call_tool_with_selection_found [OF assms]
  by (auto simp: call_function_def memory_put_def)

lemma acall_function_appends:
  assumes "acall_tool_with_selection tc tools verb = Inr out"
  shows "acall_function w tools tc mem srcs verb =
     Inr (mem @ [\<lparr>role = TOOL, message_content = str_tool_output out,
                  additional_kwargs = [(''name'', selection_tool_name tc),
                                       (''tool_call_id'', tool_id tc)]\<rparr>],
          srcs @ [out])"
  using assms acall_tool_with_selection_found [OF assms]
  by (auto simp: acall_function_def memory_put_def)

text \<open>
  The invocation of a selected tool returns whenever the tool is in the resolved set and
  its invocation returns or raises an instance of \<^verbatim>\<open>Exception\<close>.
\<close>

lemma call_tool_with_selection_returns:
  assumes "tools_by_name tools (selection_tool_name tc) = Some tool"
    and "\<forall>e. call tool (if length (properties (metadata tool)) = 1 \<and> length (tool_kwargs tc) = 1
                         then Positional (snd (hd (tool_kwargs tc)))
                         else Keywords (tool_kwargs tc)) = Inl e \<longrightarrow> is_Exception e"
  shows "\<exists>out. call_tool_with_selection tc tools verb = Inr out"
proof -
  have "\<exists>out. call_tool tool (tool_kwargs tc) = Inr out"
    unfolding call_tool_def
    by (rule except_Exception_returns) (use assms(2) in \<open>simp split: if_splits\<close>)
  with assms(1) show ?thesis
    by (simp add: call_tool_with_selection_def)
qed

section \<open>The scenario, step by step\<close>

lemma scenario_state:
  "extra_state (snd (initialize_step ''s1'' scenario_task)) =
     Some \<lparr>sources = [], n_function_calls = 0, new_memory = []\<rparr>"
  by (simp add: initialize_step_def)

lemma scenario_tools:
  "get_tools scenario_worker (input (snd (initialize_step ''s1'' scenario_task))) =
     Inr [adapt_to_async_tool add_tool]"
  by (simp add: get_tools_def scenario_worker_def)

lemma scenario_first_chat:
  "chat_with_tool (worker_llm scenario_worker) [adapt_to_async_tool add_tool]
     (prefix_messages scenario_worker @ memory (snd (initialize_step ''s1'' scenario_task)) @
      add_user_step_to_memory (fst (initialize_step ''s1'' scenario_task))
        (new_memory \<lparr>sources = [], n_function_calls = 0, new_memory = []\<rparr>)) =
   Inr \<lparr>message = \<lparr>role = ASSISTANT, message_content = [], additional_kwargs = []\<rparr>,
        response_str = ''assistant: ''\<rparr>"
  by (simp add: scenario_worker_def scenario_llm_def scenario_chat_def initialize_step_def
      scenario_task_def add_user_step_to_memory_def memory_put_def)

lemma scenario_first_selection:
  "get_tool_call_from_response (worker_llm scenario_worker)
     \<lparr>message = \<lparr>role = ASSISTANT, message_content = [], additional_kwargs = []\<rparr>,
      response_str = ''assistant: ''\<rparr> = Inr (Some scenario_selection)"
  by (simp add: scenario_worker_def scenario_llm_def)

lemma tools_by_name_single:
  "tools_by_name [tool] nm = (if name (metadata tool) = nm then Some tool else None)"
  by (simp add: tools_by_name_def)

lemma add_tool_metadata:
  "metadata add_tool = \<lparr>name = ''add'', properties = [''a'', ''b'']\<rparr>"
  by (simp add: add_tool_def)

lemma scenario_add_call:
  "call add_tool (Keywords [(''a'', PyInt 2), (''b'', PyInt 3)]) =
     Inr \<lparr>content = ''sum'', tool_name = ''add'',
          raw_input = [(''a'', PyInt 2), (''b'', PyInt 3)], raw_output = PyInt 5\<rparr>"
  by (simp add: add_tool_def)

lemma scenario_invocation:
  "call_tool_with_selection scenario_selection [adapt_to_async_tool add_tool] verb =
     Inr \<lparr>content = ''sum'', tool_name = ''add'',
          raw_input = [(''a'', PyInt 2), (''b'', PyInt 3)], raw_output = PyInt 5\<rparr>"
  by (simp add: call_tool_with_selection_def scenario_selection_def tools_by_name_single
      call_tool_def add_tool_metadata scenario_add_call except_Exception_def)

lemma scenario_async_invocation:
  "acall_tool_with_selection scenario_selection [adapt_to_async_tool add_tool] verb =
     Inr \<lparr>content = ''sum'', tool_name = ''add'',
          raw_input = [(''a'', PyInt 2), (''b'', PyInt 3)], raw_output = PyInt 5\<rparr>"
proof -
  have "acall (adapt_to_async_tool add_tool) = call add_tool"
    by (simp add: add_tool_def)
  then show ?thesis
    by (simp add: acall_tool_with_selection_def scenario_selection_def tools_by_name_single
        acall_tool_def add_tool_metadata scenario_add_call except_Exception_def)
qed

lemma scenario_first_step:
  "fst (run_step scenario_worker ''s2'' (fst (initialize_step ''s1'' scenario_task))
          (snd (initialize_step ''s1'' scenario_task))) =
     Inr \<lparr>step_output =
            \<lparr>response = ''assistant: '',
             response_sources =
               [\<lparr>content = ''sum'', tool_name = ''add'',
                 raw_input = [(''a'', PyInt 2), (''b'', PyInt 3)], raw_output = PyInt 5\<rparr>]\<rparr>,
          task_step = \<lparr>step_task_id = ''t1'', step_id = ''s1'', step_input = Some ''What is 2 + 3?''\<rparr>,
          is_last = False,
          next_steps = [\<lparr>step_task_id = ''t1'', step_id = ''s2'', step_input = None\<rparr>]\<rparr> \<and>
   extra_state (snd (run_step scenario_worker ''s2'' (fst (initialize_step ''s1'' scenario_task))
                       (snd (initialize_step ''s1'' scenario_task)))) =
     Some \<lparr>sources =
             [\<lparr>content = ''sum'', tool_name = ''add'',
               raw_input = [(''a'', PyInt 2), (''b'', PyInt 3)], raw_output = PyInt 5\<rparr>],
           n_function_calls = 0,
           new_memory =
             [\<lparr>role = USER, message_content = ''What is 2 + 3?'', additional_kwargs = []\<rparr>,
              \<lparr>role = ASSISTANT, message_content = [], additional_kwargs = []\<rparr>,
              \<lparr>role = TOOL, message_content = ''sum'',
               additional_kwargs = [(''name'', ''add''), (''tool_call_id'', ''call_1'')]\<rparr>]\<rparr>"
proof -
  have eq: "run_step scenario_worker ''s2'' (fst (initialize_step ''s1'' scenario_task))
          (snd (initialize_step ''s1'' scenario_task)) =
     (case call_function scenario_worker [adapt_to_async_tool add_tool] scenario_selection
             (add_user_step_to_memory (fst (initialize_step ''s1'' scenario_task))
                (new_memory \<lparr>sources = [], n_function_calls = 0, new_memory = []\<rparr>) @
              [message \<lparr>message = \<lparr>role = ASSISTANT, message_content = [], additional_kwargs = []\<rparr>,
                        response_str = ''assistant: ''\<rparr>])
             (sources \<lparr>sources = [], n_function_calls = 0, new_memory = []\<rparr>)
             (verbose scenario_worker) of
        Inl e \<Rightarrow>
          (Inl e,
           (snd (initialize_step ''s1'' scenario_task))\<lparr>extra_state :=
              Some (\<lparr>sources = [], n_function_calls = 0, new_memory = []\<rparr>\<lparr>new_memory :=
                add_user_step_to_memory (fst (initialize_step ''s1'' scenario_task))
                  (new_memory \<lparr>sources = [], n_function_calls = 0, new_memory = []\<rparr>) @
                [message \<lparr>message = \<lparr>role = ASSISTANT, message_content = [], additional_kwargs = []\<rparr>,
                          response_str = ''assistant: ''\<rparr>]\<rparr>)\<rparr>)
      | Inr (mem3, srcs3) \<Rightarrow>
          (Inr \<lparr>step_output =
                  \<lparr>response = response_str
                     \<lparr>message = \<lparr>role = ASSISTANT, message_content = [], additional_kwargs = []\<rparr>,
                      response_str = ''assistant: ''\<rparr>,
                   response_sources = srcs3\<rparr>,
                task_step = fst (initialize_step ''s1'' scenario_task), is_last = False,
                next_steps = [get_next_step (fst (initialize_step ''s1'' scenario_task)) ''s2'' None]\<rparr>,
           (snd (initialize_step ''s1'' scenario_task))\<lparr>extra_state :=
              Some (\<lparr>sources = [], n_function_calls = 0, new_memory = []\<rparr>\<lparr>new_memory := mem3,
                     sources := srcs3\<rparr>)\<rparr>))"
    by (rule run_step_tool_call
          [OF scenario_state scenario_tools scenario_first_chat scenario_first_selection])
  show ?thesis
    unfolding eq call_function_appends [OF scenario_invocation]
    by (simp add: initialize_step_def scenario_task_def scenario_selection_def
        add_user_step_to_memory_def memory_put_def get_next_step_def str_tool_output_def)
qed

text \<open>
  C2, as stated, fails on the first step of a task: that step carries the task's input,
  which \<open>run_step\<close> appends as a user message before it consults the backend. In the
  scenario the first step is not the last one, the new memory is empty before it and
  holds three messages after it (user, response, tool), not two.
\<close>

theorem first_step_grows_buffer_by_three:
  "map_option (length \<circ> new_memory)
     (extra_state (snd (initialize_step ''s1'' scenario_task))) = Some 0 \<and>
   fst (run_step scenario_worker ''s2'' (fst (initialize_step ''s1'' scenario_task))
          (snd (initialize_step ''s1'' scenario_task))) =
     Inr \<lparr>step_output =
            \<lparr>response = ''assistant: '',
             response_sources =
               [\<lparr>content = ''sum'', tool_name = ''add'',
                 raw_input = [(''a'', PyInt 2), (''b'', PyInt 3)], raw_output = PyInt 5\<rparr>]\<rparr>,
          task_step = \<lparr>step_task_id = ''t1'', step_id = ''s1'', step_input = Some ''What is 2 + 3?''\<rparr>,
          is_last = False,
          next_steps = [\<lparr>step_task_id = ''t1'', step_id = ''s2'', step_input = None\<rparr>]\<rparr> \<and>
   map_option (length \<circ> new_memory)
     (extra_state (snd (run_step scenario_worker ''s2'' (fst (initialize_step ''s1'' scenario_task))
                          (snd (initialize_step ''s1'' scenario_task))))) = Some 3"
  using scenario_first_step by (simp add: initialize_step_def)

text \<open>
  C2, amended: when the backend requests a tool on a step and the invocation of the
  selected tool returns an output, \<open>run_step\<close> returns a step output that is not the
  last, with one continuation step; it appends to the new memory the backend's response
  message followed by exactly one tool-role message (after the user message, if the step
  carries input), and appends exactly that one ToolOutput to the output list. The new
  memory grows by exactly two messages on a step without input and by exactly three on a
  step with input.
\<close>

theorem run_step_tool_call_appends:
  assumes "extra_state task = Some st"
    and "get_tools w (input task) = Inr tools"
    and "chat_with_tool (worker_llm w) tools
           (prefix_messages w @ memory task @ add_user_step_to_memory step (new_memory st)) = Inr resp"
    and "get_tool_call_from_response (worker_llm w) resp = Inr (Some tc)"
    and "call_tool_with_selection tc tools (verbose w) = Inr out"
  shows "run_step w new_id step task =
           (Inr \<lparr>step_output = \<lparr>response = response_str resp,
                                 response_sources = sources st @ [out]\<rparr>,
                 task_step = step, is_last = False,
                 next_steps = [get_next_step step new_id None]\<rparr>,
            task\<lparr>extra_state := Some (st\<lparr>
              new_memory := add_user_step_to_memory step (new_memory st) @
                [message resp,
                 \<lparr>role = TOOL, message_content = str_tool_output out,
                  additional_kwargs = [(''name'', selection_tool_name tc),
                                       (''tool_call_id'', tool_id tc)]\<rparr>],
              sources := sources st @ [out]\<rparr>)\<rparr>) \<and>
         map_option sources (extra_state (snd (run_step w new_id step task))) =
           Some (sources st @ [out]) \<and>
         map_option (length \<circ> new_memory) (extra_state (snd (run_step w new_id step task))) =
           Some (length (new_memory st) + (if step_input step = None then 2 else 3))"
proof -
  have len: "length (add_user_step_to_memory step (new_memory st)) =
      length (new_memory st) + (if step_input step = None then 0 else 1)"
    by (simp add: add_user_step_to_memory_def memory_put_def split: option.splits)
  have "run_step w new_id step task =
           (Inr \<lparr>step_output = \<lparr>response = response_str resp,
                                 response_sources = sources st @ [out]\<rparr>,
                 task_step = step, is_last = False,
                 next_steps = [get_next_step step new_id None]\<rparr>,
            task\<lparr>extra_state := Some (st\<lparr>
              new_memory := add_user_step_to_memory step (new_memory st) @
                [message resp,
                 \<lparr>role = TOOL, message_content = str_tool_output out,
                  additional_kwargs = [(''name'', selection_tool_name tc),
                                       (''tool_call_id'', tool_id tc)]\<rparr>],
              sources := sources st @ [out]\<rparr>)\<rparr>)"
    by (simp add: run_step_tool_call [OF assms(1-4)] call_function_appends [OF assms(5)])
  then show ?thesis
    by (simp add: len)
qed

theorem run_step_tool_call_appends_witness:
  "extra_state (snd (initialize_step ''s1'' scenario_task)) =
     Some \<lparr>sources = [], n_function_calls = 0, new_memory = []\<rparr> \<and>
   get_tools scenario_worker (input (snd (initialize_step ''s1'' scenario_task))) =
     Inr [adapt_to_async_tool add_tool] \<and>
   call_tool_with_selection scenario_selection [adapt_to_async_tool add_tool]
     (verbose scenario_worker) =
     Inr \<lparr>content = ''sum'', tool_name = ''add'',
          raw_input = [(''a'', PyInt 2), (''b'', PyInt 3)], raw_output = PyInt 5\<rparr> \<and>
   map_option sources
     (extra_state (snd (run_step scenario_worker ''s2'' (fst (initialize_step ''s1'' scenario_task))
                          (snd (initialize_step ''s1'' scenario_task))))) =
     Some [\<lparr>content = ''sum'', tool_name = ''add'',
            raw_input = [(''a'', PyInt 2), (''b'', PyInt 3)], raw_output = PyInt 5\<rparr>] \<and>
   map_option new_memory
     (extra_state (snd (run_step scenario_worker ''s2'' (fst (initialize_step ''s1'' scenario_task))
                          (snd (initialize_step ''s1'' scenario_task))))) =
     Some [\<lparr>role = USER, message_content = ''What is 2 + 3?'', additional_kwargs = []\<rparr>,
           \<lparr>role = ASSISTANT, message_content = [], additional_kwargs = []\<rparr>,
           \<lparr>role = TOOL, message_content = ''sum'',
            additional_kwargs = [(''name'', ''add''), (''tool_call_id'', ''call_1'')]\<rparr>]"
  using run_step_tool_call_appends
          [OF scenario_state scenario_tools scenario_first_chat scenario_first_selection
              scenario_invocation, of "''s2''"]
        scenario_state scenario_tools scenario_invocation [of "verbose scenario_worker"]
  by (simp add: initialize_step_def scenario_task_def scenario_selection_def
      add_user_step_to_memory_def memory_put_def str_tool_output_def)

section \<open>The call counter\<close>





section \<open>The sources of a step's response\<close>

lemma call_function_result:
  "call_function w tools tc mem srcs verb = Inr (mem3, srcs3) \<Longrightarrow> \<exists>out. srcs3 = srcs @ [out]"
  by (auto simp: call_function_def Let_def split: sum.splits)

lemma acall_function_result:
  "acall_function w tools tc mem srcs verb = Inr (mem3, srcs3) \<Longrightarrow> \<exists>out. srcs3 = srcs @ [out]"
  by (auto simp: acall_function_def Let_def split: sum.splits)

lemma run_step_sources:
  assumes "fst (run_step w new_id step task) = Inr r"
  shows "map_option sources (extra_state (snd (run_step w new_id step task))) =
           Some (response_sources (step_output r)) \<and>
         (\<exists>st new. extra_state task = Some st \<and>
            response_sources (step_output r) = sources st @ new \<and>
            length new = (if is_last r then 0 else 1))"
  using assms
  by (auto simp: run_step_def Let_def get_all_messages_def
      split: option.splits sum.splits prod.splits dest: call_function_result)

lemma arun_step_sources:
  assumes "fst (arun_step w new_id step task) = Inr r"
  shows "map_option sources (extra_state (snd (arun_step w new_id step task))) =
           Some (response_sources (step_output r)) \<and>
         (\<exists>st new. extra_state task = Some st \<and>
            response_sources (step_output r) = sources st @ new \<and>
            length new = (if is_last r then 0 else 1))"
  using assms
  by (auto simp: arun_step_def Let_def get_all_messages_def
      split: option.splits sum.splits prod.splits dest: acall_function_result)

text \<open>
  C10: whenever \<open>run_step\<close> or \<open>arun_step\<close> returns a step output, terminal or not,
  the sources of its response are the task's whole output list as it stands after the
  step: the list the task had before the step, followed by the one ToolOutput of this
  step when a tool was selected and by nothing on a terminal step. The response holds a
  reference to the task's list; the model, which has values only, states that the two
  are equal when the step returns.
\<close>

theorem step_response_carries_all_sources:
  "(fst (run_step w new_id step task) = Inr r \<longrightarrow>
      map_option sources (extra_state (snd (run_step w new_id step task))) =
        Some (response_sources (step_output r)) \<and>
      (\<exists>st new. extra_state task = Some st \<and>
         response_sources (step_output r) = sources st @ new \<and>
         length new = (if is_last r then 0 else 1))) \<and>
   (fst (arun_step w new_id step task) = Inr r \<longrightarrow>
      map_option sources (extra_state (snd (arun_step w new_id step task))) =
        Some (response_sources (step_output r)) \<and>
      (\<exists>st new. extra_state task = Some st \<and>
         response_sources (step_output r) = sources st @ new \<and>
         length new = (if is_last r then 0 else 1)))"
  using run_step_sources [of w new_id step task r] arun_step_sources [of w new_id step task r]
  by blast

lemma scenario_second_step:
  "arun_step scenario_worker ''s3'' \<lparr>step_task_id = ''t1'', step_id = ''s2'', step_input = None\<rparr>
     (scenario_task\<lparr>extra_state := Some
        \<lparr>sources =
           [\<lparr>content = ''sum'', tool_name = ''add'',
             raw_input = [(''a'', PyInt 2), (''b'', PyInt 3)], raw_output = PyInt 5\<rparr>],
         n_function_calls = 0,
         new_memory =
           [\<lparr>role = USER, message_content = ''What is 2 + 3?'', additional_kwargs = []\<rparr>,
            \<lparr>role = ASSISTANT, message_content = [], additional_kwargs = []\<rparr>,
            \<lparr>role = TOOL, message_content = ''sum'',
             additional_kwargs = [(''name'', ''add''), (''tool_call_id'', ''call_1'')]\<rparr>]\<rparr>\<rparr>) =
   (Inr \<lparr>step_output =
           \<lparr>response = ''assistant: 7'',
            response_sources =
              [\<lparr>content = ''sum'', tool_name = ''add'',
                raw_input = [(''a'', PyInt 2), (''b'', PyInt 3)], raw_output = PyInt 5\<rparr>]\<rparr>,
         task_step = \<lparr>step_task_id = ''t1'', step_id = ''s2'', step_input = None\<rparr>,
         is_last = True, next_steps = []\<rparr>,
    scenario_task\<lparr>extra_state := Some
        \<lparr>sources =
           [\<lparr>content = ''sum'', tool_name = ''add'',
             raw_input = [(''a'', PyInt 2), (''b'', PyInt 3)], raw_output = PyInt 5\<rparr>],
         n_function_calls = 0,
         new_memory =
           [\<lparr>role = USER, message_content = ''What is 2 + 3?'', additional_kwargs = []\<rparr>,
            \<lparr>role = ASSISTANT, message_content = [], additional_kwargs = []\<rparr>,
            \<lparr>role = TOOL, message_content = ''sum'',
             additional_kwargs = [(''name'', ''add''), (''tool_call_id'', ''call_1'')]\<rparr>,
            \<lparr>role = ASSISTANT, message_content = ''7'', additional_kwargs = []\<rparr>]\<rparr>\<rparr>)"
proof -
  let ?st = "\<lparr>sources =
           [\<lparr>content = ''sum'', tool_name = ''add'',
             raw_input = [(''a'', PyInt 2), (''b'', PyInt 3)], raw_output = PyInt 5\<rparr>],
         n_function_calls = 0,
         new_memory =
           [\<lparr>role = USER, message_content = ''What is 2 + 3?'', additional_kwargs = []\<rparr>,
            \<lparr>role = ASSISTANT, message_content = [], additional_kwargs = []\<rparr>,
            \<lparr>role = TOOL, message_content = ''sum'',
             additional_kwargs = [(''name'', ''add''), (''tool_call_id'', ''call_1'')]\<rparr>]\<rparr>"
  let ?step = "\<lparr>step_task_id = ''t1'', step_id = ''s2'', step_input = None\<rparr>"
  let ?resp = "\<lparr>message = \<lparr>role = ASSISTANT, message_content = ''7'', additional_kwargs = []\<rparr>,
               response_str = ''assistant: 7''\<rparr>"
  have st: "extra_state (scenario_task\<lparr>extra_state := Some ?st\<rparr>) = Some ?st"
    by simp
  have tools: "get_tools scenario_worker (input (scenario_task\<lparr>extra_state := Some ?st\<rparr>)) =
      Inr [adapt_to_async_tool add_tool]"
    by (simp add: get_tools_def scenario_worker_def)
  have chat: "achat_with_tool (worker_llm scenario_worker) [adapt_to_async_tool add_tool]
      (prefix_messages scenario_worker @ memory (scenario_task\<lparr>extra_state := Some ?st\<rparr>) @
       add_user_step_to_memory ?step (new_memory ?st)) = Inr ?resp"
    by (simp add: scenario_worker_def scenario_llm_def scenario_chat_def scenario_task_def
        add_user_step_to_memory_def)
  have sel: "get_tool_call_from_response (worker_llm scenario_worker) ?resp = Inr None"
    by (simp add: scenario_worker_def scenario_llm_def)
  show ?thesis
    unfolding arun_step_no_tool_call [OF st tools chat sel]
    by (simp add: add_user_step_to_memory_def)
qed

theorem step_response_carries_all_sources_witness:
  "fst (run_step scenario_worker ''s2'' (fst (initialize_step ''s1'' scenario_task))
          (snd (initialize_step ''s1'' scenario_task))) =
     Inr \<lparr>step_output =
            \<lparr>response = ''assistant: '',
             response_sources =
               [\<lparr>content = ''sum'', tool_name = ''add'',
                 raw_input = [(''a'', PyInt 2), (''b'', PyInt 3)], raw_output = PyInt 5\<rparr>]\<rparr>,
          task_step = \<lparr>step_task_id = ''t1'', step_id = ''s1'', step_input = Some ''What is 2 + 3?''\<rparr>,
          is_last = False,
          next_steps = [\<lparr>step_task_id = ''t1'', step_id = ''s2'', step_input = None\<rparr>]\<rparr> \<and>
   map_option sources
     (extra_state (snd (run_step scenario_worker ''s2'' (fst (initialize_step ''s1'' scenario_task))
                          (snd (initialize_step ''s1'' scenario_task))))) =
     Some [\<lparr>content = ''sum'', tool_name = ''add'',
            raw_input = [(''a'', PyInt 2), (''b'', PyInt 3)], raw_output = PyInt 5\<rparr>] \<and>
   fst (arun_step scenario_worker ''s3'' \<lparr>step_task_id = ''t1'', step_id = ''s2'', step_input = None\<rparr>
     (scenario_task\<lparr>extra_state := Some
        \<lparr>sources =
           [\<lparr>content = ''sum'', tool_name = ''add'',
             raw_input = [(''a'', PyInt 2), (''b'', PyInt 3)], raw_output = PyInt 5\<rparr>],
         n_function_calls = 0,
         new_memory =
           [\<lparr>role = USER, message_content = ''What is 2 + 3?'', additional_kwargs = []\<rparr>,
            \<lparr>role = ASSISTANT, message_content = [], additional_kwargs = []\<rparr>,
            \<lparr>role = TOOL, message_content = ''sum'',
             additional_kwargs = [(''name'', ''add''), (''tool_call_id'', ''call_1'')]\<rparr>]\<rparr>\<rparr>)) =
     Inr \<lparr>step_output =
            \<lparr>response = ''assistant: 7'',
             response_sources =
               [\<lparr>content = ''sum'', tool_name = ''add'',
                 raw_input = [(''a'', PyInt 2), (''b'', PyInt 3)], raw_output = PyInt 5\<rparr>]\<rparr>,
          task_step = \<lparr>step_task_id = ''t1'', step_id = ''s2'', step_input = None\<rparr>,
          is_last = True, next_steps = []\<rparr> \<and>
   map_option sources
     (extra_state (snd (arun_step scenario_worker ''s3'' \<lparr>step_task_id = ''t1'', step_id = ''s2'', step_input = None\<rparr>
     (scenario_task\<lparr>extra_state := Some
        \<lparr>sources =
           [\<lparr>content = ''sum'', tool_name = ''add'',
             raw_input = [(''a'', PyInt 2), (''b'', PyInt 3)], raw_output = PyInt 5\<rparr>],
         n_function_calls = 0,
         new_memory =
           [\<lparr>role = USER, message_content = ''What is 2 + 3?'', additional_kwargs = []\<rparr>,
            \<lparr>role = ASSISTANT, message_content = [], additional_kwargs = []\<rparr>,
            \<lparr>role = TOOL, message_content = ''sum'',
             additional_kwargs = [(''name'', ''add''), (''tool_call_id'', ''call_1'')]\<rparr>]\<rparr>\<rparr>)))) =
     Some [\<lparr>content = ''sum'', tool_name = ''add'',
            raw_input = [(''a'', PyInt 2), (''b'', PyInt 3)], raw_output = PyInt 5\<rparr>]"
  using step_response_carries_all_sources
          [where w = scenario_worker and new_id = "''s2''"
             and step = "fst (initialize_step ''s1'' scenario_task)"
             and task = "snd (initialize_step ''s1'' scenario_task)"
             and r = "\<lparr>step_output =
            \<lparr>response = ''assistant: '',
             response_sources =
               [\<lparr>content = ''sum'', tool_name = ''add'',
                 raw_input = [(''a'', PyInt 2), (''b'', PyInt 3)], raw_output = PyInt 5\<rparr>]\<rparr>,
          task_step = \<lparr>step_task_id = ''t1'', step_id = ''s1'', step_input = Some ''What is 2 + 3?''\<rparr>,
          is_last = False,
          next_steps = [\<lparr>step_task_id = ''t1'', step_id = ''s2'', step_input = None\<rparr>]\<rparr>"]
        step_response_carries_all_sources
          [where w = scenario_worker and new_id = "''s3''"
             and step = "\<lparr>step_task_id = ''t1'', step_id = ''s2'', step_input = None\<rparr>"
             and task = "(scenario_task\<lparr>extra_state := Some
        \<lparr>sources =
           [\<lparr>content = ''sum'', tool_name = ''add'',
             raw_input = [(''a'', PyInt 2), (''b'', PyInt 3)], raw_output = PyInt 5\<rparr>],
         n_function_calls = 0,
         new_memory =
           [\<lparr>role = USER, message_content = ''What is 2 + 3?'', additional_kwargs = []\<rparr>,
            \<lparr>role = ASSISTANT, message_content = [], additional_kwargs = []\<rparr>,
            \<lparr>role = TOOL, message_content = ''sum'',
             additional_kwargs = [(''name'', ''add''), (''tool_call_id'', ''call_1'')]\<rparr>]\<rparr>\<rparr>)"
             and r = "\<lparr>step_output =
            \<lparr>response = ''assistant: 7'',
             response_sources =
               [\<lparr>content = ''sum'', tool_name = ''add'',
                 raw_input = [(''a'', PyInt 2), (''b'', PyInt 3)], raw_output = PyInt 5\<rparr>]\<rparr>,
          task_step = \<lparr>step_task_id = ''t1'', step_id = ''s2'', step_input = None\<rparr>,
          is_last = True, next_steps = []\<rparr>"]
        scenario_first_step
  by (simp add: scenario_second_step)

section \<open>The blocking and the suspending step\<close>

lemma acall_tool_eq_call_tool:
  assumes "acall (adapt_to_async_tool tool) = call tool"
  shows "acall_tool tool arguments = call_tool tool arguments"
  using assms by (simp add: acall_tool_def call_tool_def Let_def)

lemma acall_tool_with_selection_eq:
  assumes "\<forall>tool\<in>set tools. acall (adapt_to_async_tool tool) = call tool"
  shows "acall_tool_with_selection tc tools verb = call_tool_with_selection tc tools verb"
proof (cases "tools_by_name tools (selection_tool_name tc)")
  case None
  then show ?thesis
    by (simp add: acall_tool_with_selection_def call_tool_with_selection_def)
next
  case (Some tool)
  then have "tool \<in> set tools"
    by (simp add: tools_by_name_member)
  with assms have "acall_tool tool (tool_kwargs tc) = call_tool tool (tool_kwargs tc)"
    by (simp add: acall_tool_eq_call_tool)
  with Some show ?thesis
    by (simp add: acall_tool_with_selection_def call_tool_with_selection_def)
qed

lemma acall_function_eq:
  assumes "\<forall>tool\<in>set tools. acall (adapt_to_async_tool tool) = call tool"
  shows "acall_function w tools tc mem srcs verb = call_function w tools tc mem srcs verb"
  by (simp add: acall_function_def call_function_def acall_tool_with_selection_eq [OF assms]
      cong: sum.case_cong)

text \<open>
  C9: when the backend's suspending chat call answers as its blocking one, and the
  asynchronous entry of every (adapted) tool of the task's catalog behaves as its
  synchronous entry, \<open>arun_step\<close> and \<open>run_step\<close> return the same result and leave
  the task in the same state, for every step and task and for the same identifier drawn
  for the continuation step.
\<close>

theorem arun_step_agrees_with_run_step:
  assumes "achat_with_tool (worker_llm w) = chat_with_tool (worker_llm w)"
    and "\<forall>ts. get_tools_fn w (input task) = Inr ts \<longrightarrow>
           (\<forall>tool\<in>set ts. acall (adapt_to_async_tool tool) = call tool)"
  shows "arun_step w new_id step task = run_step w new_id step task"
proof -
  have key: "acall_function w tools tc mem srcs verb = call_function w tools tc mem srcs verb"
    if "get_tools w (input task) = Inr tools" for tools tc mem srcs verb
  proof (rule acall_function_eq, rule ballI)
    fix tool assume "tool \<in> set tools"
    moreover from that obtain ts where ts: "get_tools_fn w (input task) = Inr ts"
      and "tools = map adapt_to_async_tool ts"
      by (auto simp: get_tools_def split: sum.splits)
    ultimately obtain t where "t \<in> set ts" and "tool = adapt_to_async_tool t"
      by auto
    with assms(2) ts show "acall (adapt_to_async_tool tool) = call tool"
      by simp
  qed
  show ?thesis
    by (auto simp: arun_step_def run_step_def assms(1) key Let_def
        split: option.splits sum.splits prod.splits)
qed

theorem arun_step_agrees_with_run_step_witness:
  "achat_with_tool (worker_llm scenario_worker) = chat_with_tool (worker_llm scenario_worker) \<and>
   get_tools_fn scenario_worker (input (snd (initialize_step ''s1'' scenario_task))) =
     Inr [add_tool] \<and>
   acall (adapt_to_async_tool add_tool) = call add_tool \<and>
   arun_step scenario_worker ''s2'' (fst (initialize_step ''s1'' scenario_task))
     (snd (initialize_step ''s1'' scenario_task)) =
   run_step scenario_worker ''s2'' (fst (initialize_step ''s1'' scenario_task))
     (snd (initialize_step ''s1'' scenario_task))"
proof -
  have sync: "acall (adapt_to_async_tool add_tool) = call add_tool"
    by (simp add: add_tool_def)
  have chat: "achat_with_tool (worker_llm scenario_worker) = chat_with_tool (worker_llm scenario_worker)"
    by (simp add: scenario_worker_def scenario_llm_def)
  have catalog: "get_tools_fn scenario_worker inp = Inr [add_tool]" for inp
    by (simp add: scenario_worker_def)
  have "arun_step scenario_worker ''s2'' (fst (initialize_step ''s1'' scenario_task))
     (snd (initialize_step ''s1'' scenario_task)) =
   run_step scenario_worker ''s2'' (fst (initialize_step ''s1'' scenario_task))
     (snd (initialize_step ''s1'' scenario_task))"
    by (rule arun_step_agrees_with_run_step [OF chat]) (simp add: catalog sync)
  with sync chat catalog show ?thesis
    by simp
qed

end
